theory Spec2Isabelle
  imports Main "HOL-Library.Word"
begin

unbundle bit_operations_syntax

section \<open>Bytes, strings and errors\<close>

text \<open>
  A Go \<open>byte\<close> is an 8-bit word, \<open>uint16\<close> and \<open>uint32\<close> are 16- and 32-bit words.
  A Go \<open>string\<close> in the PDU codec is an immutable byte sequence, so \<open>[]byte(s)\<close> and
  \<open>string(b)\<close> are the identity on \<open>byte list\<close>. Go's \<open>int\<close> fields are modelled
  as \<open>int\<close>; the conversion \<open>byte(v)\<close> keeps the low eight bits (\<open>word_of_int\<close>).
  \<open>str\<close> writes an ASCII literal as such a byte sequence.
\<close>

type_synonym byte = "8 word"
type_synonym uint16 = "16 word"
type_synonym uint32 = "32 word"
type_synonym gostring = "byte list"

definition str :: "string \<Rightarrow> gostring" where
  "str s = map of_char s"

text \<open>Session states and types of \<open>session.go\<close>.\<close>

datatype SessionState =
    StateOpen | StateBinding | StateBoundTx | StateBoundRx | StateBoundTRx
  | StateUnbinding | StateClosing | StateClosed

datatype SessionType = ESME | SMSC

text \<open>
  Every error value the modelled code builds. The Go code formats messages; the model
  keeps the message's kind and its parameters. \<open>PanicIndexOutOfRange\<close> is the run-time
  panic of an out-of-range index or slice expression. \<open>SessionError msg temp\<close> is the
  struct \<open>smpp.Error{Msg, Temp}\<close>; the other session errors are plain \<open>fmt.Errorf\<close> values.
\<close>

datatype session_msg =
    SendingNilPdu
  | SendingWindowClosed
  | ProcessingInInvalidState uint32 SessionState

datatype error =
    EOF
  | InvalidCStringLength
  | InvalidStringLength
  | ReadCountMissmatch
  | CStringNotTerminated
  | InvalidOptionalBodyLength
  | InvalidOptionalFieldLength uint16 nat
  | BodyTooShort string nat
  | Decoding string error
  | NotSupportedYet uint32
  | TimeParseError
  | InvalidLayoutLength
  | InvalidFormatLayout
  | InvalidReceiptFormat
  | WriteFailed
  | UnexpectedEOF
  | PduLengthUnderLowerLimit
  | PduLengthOverUpperLimit
  | InvalidPduHeaderLength uint32
  | PduLengthMismatch uint32 nat
  | PanicUnsupportedPduCommand
  | PanicIndexOutOfRange
  | SessionError session_msg bool
  | SettingSameStateTwice SessionState
  | SettingOpenToInvalidState SessionState
  | SettingBindingToInvalidState SessionState
  | SettingBoundToInvalidState SessionState
  | SettingUnbindingToInvalidState SessionState
  | SettingClosingToInvalidState SessionState
  | AlreadyInClosedState SessionState
  | SessionClosedBeforeResponse

text \<open>\<open>Error.Temporary\<close>: only \<open>smpp.Error\<close> carries the flag.\<close>

fun Temporary :: "error \<Rightarrow> bool" where
  "Temporary (SessionError m temp) = temp"
| "Temporary e = False"

section \<open>Go's time values, as the time codec uses them\<close>

text \<open>
  A \<open>time.Time\<close> is an instant with a zone: \<open>abs_sec\<close> counts the seconds since
  January 1 of year 1, 00:00:00 UTC (the zero value of \<open>time.Time\<close>), \<open>nsec\<close> the
  nanoseconds within the second, \<open>zone\<close> the offset of its location in seconds east of
  UTC. The calendar is the proleptic Gregorian one, as in Go.
\<close>

record gotime =
  abs_sec :: int
  nsec :: int
  zone :: int

definition zero_time :: gotime where
  "zero_time = \<lparr>abs_sec = 0, nsec = 0, zone = 0\<rparr>"

definition IsZero :: "gotime \<Rightarrow> bool" where
  "IsZero t \<longleftrightarrow> abs_sec t = 0 \<and> nsec t = 0"

definition isLeap :: "int \<Rightarrow> bool" where
  "isLeap y \<longleftrightarrow> y mod 4 = 0 \<and> (y mod 100 \<noteq> 0 \<or> y mod 400 = 0)"

definition days_before_year :: "int \<Rightarrow> int" where
  "days_before_year y =
     365 * (y - 1) + (y - 1) div 4 - (y - 1) div 100 + (y - 1) div 400"

definition daysBefore :: "int list" where
  "daysBefore = [0, 31, 59, 90, 120, 151, 181, 212, 243, 273, 304, 334, 365]"

text \<open>\<open>daysIn m year\<close> for a month \<open>1 \<le> m \<le> 12\<close>.\<close>

definition daysIn :: "int \<Rightarrow> int \<Rightarrow> int" where
  "daysIn m year =
     (if m = 2 \<and> isLeap year then 29
      else daysBefore ! nat m - daysBefore ! nat (m - 1))"

text \<open>
  \<open>time.Date\<close>: month, day, hour, minute, second and nanosecond may be out of range
  and are normalised by carrying into the next larger unit.
\<close>

definition go_Date :: "int \<Rightarrow> int \<Rightarrow> int \<Rightarrow> int \<Rightarrow> int \<Rightarrow> int \<Rightarrow> int \<Rightarrow> int \<Rightarrow> gotime" where
  "go_Date year month day hour minute sec ns off =
     (let y = year + (month - 1) div 12;
          m = (month - 1) mod 12 + 1;
          d = days_before_year y + daysBefore ! nat (m - 1)
              + (if isLeap y \<and> 2 < m then 1 else 0) + (day - 1)
      in \<lparr>abs_sec = d * 86400 + hour * 3600 + minute * 60 + sec + ns div 1000000000 - off,
          nsec = ns mod 1000000000,
          zone = off\<rparr>)"

text \<open>The civil date of a day number (days since January 1 of year 1).\<close>

definition civil_of_days :: "int \<Rightarrow> int \<times> int \<times> int" where
  "civil_of_days z =
     (let z1 = z + 306;
          era = z1 div 146097;
          doe = z1 mod 146097;
          yoe = (doe - doe div 1460 + doe div 36524 - doe div 146096) div 365;
          doy = doe - (365 * yoe + yoe div 4 - yoe div 100);
          mp = (5 * doy + 2) div 153;
          d = doy - (153 * mp + 2) div 5 + 1;
          m = (if mp < 10 then mp + 3 else mp - 9);
          y = yoe + era * 400 + (if m \<le> 2 then 1 else 0)
      in (y, m, d))"

text \<open>\<open>t.Date()\<close> and \<open>t.Clock()\<close>, read in the zone with offset \<open>off\<close>.\<close>

definition date_in :: "int \<Rightarrow> gotime \<Rightarrow> int \<times> int \<times> int" where
  "date_in off t = civil_of_days ((abs_sec t + off) div 86400)"

definition clock_in :: "int \<Rightarrow> gotime \<Rightarrow> int \<times> int \<times> int" where
  "clock_in off t =
     (let r = (abs_sec t + off) mod 86400
      in (r div 3600, (r mod 3600) div 60, r mod 60))"

text \<open>\<open>t.Add(d)\<close> for a duration of \<open>ns\<close> nanoseconds.\<close>

definition time_Add :: "gotime \<Rightarrow> int \<Rightarrow> gotime" where
  "time_Add t ns =
     t\<lparr>abs_sec := abs_sec t + (nsec t + ns) div 1000000000,
       nsec := (nsec t + ns) mod 1000000000\<rparr>"

text \<open>\<open>t.AddDate(y, m, d)\<close>: \<open>Date\<close> of the shifted civil fields in the zone of \<open>t\<close>.\<close>

definition AddDate :: "gotime \<Rightarrow> int \<Rightarrow> int \<Rightarrow> int \<Rightarrow> gotime" where
  "AddDate t years months days =
     (case date_in (zone t) t of (y, m, d) \<Rightarrow>
      case clock_in (zone t) t of (h, mi, s) \<Rightarrow>
        go_Date (y + years) (m + months) (d + days) h mi s (nsec t) (zone t))"

text \<open>
  Decimal rendering: \<open>dec n\<close> is \<open>%d\<close> of a natural number, \<open>pad2\<close> is \<open>%02d\<close>,
  \<open>two\<close> the two-digit field of \<open>Time.Format\<close> for a value below 100.
\<close>

fun dec :: "nat \<Rightarrow> gostring" where
  "dec n = (if n < 10 then [of_nat (48 + n)] else dec (n div 10) @ [of_nat (48 + n mod 10)])"

declare dec.simps [simp del]

definition pad2 :: "int \<Rightarrow> gostring" where
  "pad2 n = (if n < 0 then 45 # dec (nat (- n))
             else if n < 10 then 48 # dec (nat n) else dec (nat n))"

definition two :: "int \<Rightarrow> gostring" where
  "two n = [of_nat (48 + nat n div 10), of_nat (48 + nat n mod 10)]"

subsection \<open>\<open>time.Parse\<close> on the layouts this repository uses\<close>

text \<open>
  The layouts \<open>0601021504\<close>, \<open>060102150405\<close> and \<open>20060102150405\<close> are sequences of
  the layout elements below. Each element is parsed the way Go's \<open>time.Parse\<close> does it:
  the two-digit year through \<open>atoi\<close> (which takes a sign), the four-digit year only when
  it starts with a digit, the zero-padded fields as exactly two digits, the hour as one
  or two digits; month, hour, minute and second are range-checked at once, the day
  against the month when the value is used up; text left over is an error.
  Go's extension that reads a fractional second after the seconds field needs a
  \<open>.\<close> or \<open>,\<close> there; no caller in this repository can pass one (the time codec passes
  values of the layout's own length, the receipt parser values matched by a character
  class without these two characters), and the model reports it as left-over text.
\<close>

datatype std = stdYear | stdLongYear | stdZeroMonth | stdZeroDay | stdHour
  | stdZeroMinute | stdZeroSecond

definition layout_0601021504 :: "std list" where
  "layout_0601021504 = [stdYear, stdZeroMonth, stdZeroDay, stdHour, stdZeroMinute]"

definition layout_060102150405 :: "std list" where
  "layout_060102150405 =
     [stdYear, stdZeroMonth, stdZeroDay, stdHour, stdZeroMinute, stdZeroSecond]"

definition layout_20060102150405 :: "std list" where
  "layout_20060102150405 =
     [stdLongYear, stdZeroMonth, stdZeroDay, stdHour, stdZeroMinute, stdZeroSecond]"

definition isDigit :: "byte \<Rightarrow> bool" where
  "isDigit b \<longleftrightarrow> 48 \<le> b \<and> b \<le> 57"

definition digit_val :: "byte \<Rightarrow> int" where
  "digit_val b = uint b - 48"

text \<open>\<open>atoi\<close> on a string of two bytes.\<close>

definition atoi2 :: "byte \<Rightarrow> byte \<Rightarrow> int option" where
  "atoi2 c1 c2 =
     (if c1 = 45 then (if isDigit c2 then Some (- digit_val c2) else None)
      else if c1 = 43 then (if isDigit c2 then Some (digit_val c2) else None)
      else if isDigit c1 \<and> isDigit c2 then Some (digit_val c1 * 10 + digit_val c2)
      else None)"

fun getnum :: "bool \<Rightarrow> byte list \<Rightarrow> (int \<times> byte list) option" where
  "getnum fixed [] = None"
| "getnum fixed [c] =
     (if \<not> isDigit c then None else if fixed then None else Some (digit_val c, []))"
| "getnum fixed (c1 # c2 # v) =
     (if \<not> isDigit c1 then None
      else if \<not> isDigit c2 then (if fixed then None else Some (digit_val c1, c2 # v))
      else Some (digit_val c1 * 10 + digit_val c2, v))"

record parsed =
  p_year :: int
  p_month :: int
  p_day :: int
  p_hour :: int
  p_min :: int
  p_sec :: int

fun parse_fields :: "std list \<Rightarrow> byte list \<Rightarrow> parsed \<Rightarrow> parsed option" where
  "parse_fields [] value p =
     (if value \<noteq> [] then None
      else if p_day p < 1 \<or> daysIn (p_month p) (p_year p) < p_day p then None
      else Some p)"
| "parse_fields (stdYear # l) value p =
     (case value of
        c1 # c2 # v \<Rightarrow>
          (case atoi2 c1 c2 of
             None \<Rightarrow> None
           | Some y \<Rightarrow>
               parse_fields l v (p\<lparr>p_year := (if 69 \<le> y then y + 1900 else y + 2000)\<rparr>))
      | _ \<Rightarrow> None)"
| "parse_fields (stdLongYear # l) value p =
     (case value of
        c1 # c2 # c3 # c4 # v \<Rightarrow>
          (if isDigit c1 \<and> isDigit c2 \<and> isDigit c3 \<and> isDigit c4
           then parse_fields l v
                  (p\<lparr>p_year := digit_val c1 * 1000 + digit_val c2 * 100
                                 + digit_val c3 * 10 + digit_val c4\<rparr>)
           else None)
      | _ \<Rightarrow> None)"
| "parse_fields (stdZeroMonth # l) value p =
     (case getnum True value of
        None \<Rightarrow> None
      | Some (m, v) \<Rightarrow>
          (if m \<le> 0 \<or> 12 < m then None else parse_fields l v (p\<lparr>p_month := m\<rparr>)))"
| "parse_fields (stdZeroDay # l) value p =
     (case getnum True value of
        None \<Rightarrow> None
      | Some (d, v) \<Rightarrow> parse_fields l v (p\<lparr>p_day := d\<rparr>))"
| "parse_fields (stdHour # l) value p =
     (case getnum False value of
        None \<Rightarrow> None
      | Some (h, v) \<Rightarrow>
          (if h < 0 \<or> 24 \<le> h then None else parse_fields l v (p\<lparr>p_hour := h\<rparr>)))"
| "parse_fields (stdZeroMinute # l) value p =
     (case getnum True value of
        None \<Rightarrow> None
      | Some (m, v) \<Rightarrow>
          (if m < 0 \<or> 60 \<le> m then None else parse_fields l v (p\<lparr>p_min := m\<rparr>)))"
| "parse_fields (stdZeroSecond # l) value p =
     (case getnum True value of
        None \<Rightarrow> None
      | Some (s, v) \<Rightarrow>
          (if s < 0 \<or> 60 \<le> s then None else parse_fields l v (p\<lparr>p_sec := s\<rparr>)))"

text \<open>
  \<open>time.ParseInLocation(layout, value, loc)\<close> for a location with the fixed offset
  \<open>off\<close>; \<open>time.Parse\<close> is the case of UTC.
\<close>

definition ParseInLocation :: "std list \<Rightarrow> byte list \<Rightarrow> int \<Rightarrow> error + gotime" where
  "ParseInLocation layout value off =
     (case parse_fields layout value
             \<lparr>p_year = 0, p_month = 1, p_day = 1, p_hour = 0, p_min = 0, p_sec = 0\<rparr> of
        None \<Rightarrow> Inl TimeParseError
      | Some p \<Rightarrow>
          Inr (go_Date (p_year p) (p_month p) (p_day p) (p_hour p) (p_min p) (p_sec p) 0 off))"

definition time_Parse :: "std list \<Rightarrow> byte list \<Rightarrow> error + gotime" where
  "time_Parse layout value = ParseInLocation layout value 0"

section \<open>The time codec (\<open>time/time.go\<close>)\<close>

datatype Layout = SimpleSeconds | SimpleMinutes | Absolute | Relative | OtherLayout

text \<open>
  \<open>Parse\<close>. The relative layout adds to the current time, which the model takes as the
  argument \<open>now\<close>. The digits of the relative and absolute layouts are read with byte
  arithmetic (\<open>(in[0]-48)*10 + (in[1]-48)\<close> wraps around in eight bits) and are not
  checked to be digits.
\<close>

definition byte_pair :: "byte list \<Rightarrow> nat \<Rightarrow> int" where
  "byte_pair inp i = uint ((inp ! i - 48) * 10 + (inp ! (i + 1) - 48))"

definition Parse :: "gotime \<Rightarrow> byte list \<Rightarrow> error + gotime" where
  "Parse now inp =
     (let l = length inp in
      if l = 1 \<or> l = 0 then Inr zero_time
      else if l = 12 then time_Parse layout_060102150405 inp
      else if l = 14 then time_Parse layout_20060102150405 inp
      else if l = 10 then time_Parse layout_0601021504 inp
      else if l = 16 then
        (let layoutIndicator = inp ! (l - 1) in
         if layoutIndicator = 82 then
           (let y = byte_pair inp 0; mo = byte_pair inp 2; d = byte_pair inp 4;
                h = byte_pair inp 6; mi = byte_pair inp 8; s = byte_pair inp 10
            in Inr (time_Add (AddDate now y mo d)
                      ((h * 3600 + mi * 60 + s) * 1000000000)))
         else if layoutIndicator = 45 \<or> layoutIndicator = 43 then
           (let nn = byte_pair inp 13;
                offset = (if layoutIndicator = 45 then - (nn * 900) else nn * 900)
            in case ParseInLocation layout_060102150405 (take (l - 4) inp) offset of
                 Inl e \<Rightarrow> Inl e
               | Inr t \<Rightarrow> Inr (time_Add t (uint (inp ! 12 - 48) * 100 * 1000000)))
         else Inl InvalidLayoutLength)
      else Inl InvalidLayoutLength)"

text \<open>\<open>diff\<close>: the broken-down difference of two times, read in the zone of the first.\<close>

definition diff :: "gotime \<Rightarrow> gotime \<Rightarrow> int \<times> int \<times> int \<times> int \<times> int \<times> int" where
  "diff a0 b0 =
     (let off = zone a0;
          after = (abs_sec b0 < abs_sec a0 \<or> (abs_sec b0 = abs_sec a0 \<and> nsec b0 < nsec a0));
          a = (if after then b0 else a0);
          b = (if after then a0 else b0)
      in case date_in off a of (y1, M1, d1) \<Rightarrow>
         case date_in off b of (y2, M2, d2) \<Rightarrow>
         case clock_in off a of (h1, m1, s1) \<Rightarrow>
         case clock_in off b of (h2, m2, s2) \<Rightarrow>
           (let year = y2 - y1; month = M2 - M1; day = d2 - d1;
                hour = h2 - h1; minute = m2 - m1; sec = s2 - s1;
                minute = (if sec < 0 then minute - 1 else minute);
                sec = (if sec < 0 then sec + 60 else sec);
                hour = (if minute < 0 then hour - 1 else hour);
                minute = (if minute < 0 then minute + 60 else minute);
                day = (if hour < 0 then day - 1 else day);
                hour = (if hour < 0 then hour + 24 else hour);
                month = (if day < 0 then month - 1 else month);
                day = (if day < 0 then day + daysIn M1 y1 else day);
                year = (if month < 0 then year - 1 else year);
                month = (if month < 0 then month + 12 else month)
            in (year, month, day, hour, minute, sec)))"

text \<open>
  \<open>Format\<close>. \<open>t.Format("060102150405")\<close> writes two digits per field, the year as
  \<open>|year| % 100\<close>. The offset of the absolute layout is \<open>z / 900\<close> with Go's truncating
  division, written without its sign.
\<close>

definition format_060102 :: "gotime \<Rightarrow> gostring" where
  "format_060102 t =
     (case date_in (zone t) t of (y, m, d) \<Rightarrow> two (\<bar>y\<bar> mod 100) @ two m @ two d)"

definition format_1504 :: "gotime \<Rightarrow> gostring" where
  "format_1504 t = (case clock_in (zone t) t of (h, mi, s) \<Rightarrow> two h @ two mi)"

definition format_05 :: "gotime \<Rightarrow> gostring" where
  "format_05 t = (case clock_in (zone t) t of (h, mi, s) \<Rightarrow> two s)"

definition Format :: "gotime \<Rightarrow> Layout \<Rightarrow> gotime \<Rightarrow> error + gostring" where
  "Format now layout t =
     (case layout of
        SimpleSeconds \<Rightarrow> Inr (format_060102 t @ format_1504 t @ format_05 t)
      | SimpleMinutes \<Rightarrow> Inr (format_060102 t @ format_1504 t)
      | Relative \<Rightarrow>
          (case diff t now of (y, mo, d, h, mi, s) \<Rightarrow>
             Inr (pad2 y @ pad2 mo @ pad2 d @ pad2 h @ pad2 mi @ pad2 s @ str ''000R''))
      | Absolute \<Rightarrow>
          (let z = zone t; offset = \<bar>z\<bar> div 900
           in Inr (format_060102 t @ format_1504 t @ format_05 t
                   @ dec (nat (nsec t div 100000000)) @ pad2 offset
                   @ (if z \<le> - 900 then str ''-'' else str ''+'')))
      | OtherLayout \<Rightarrow> Inl InvalidFormatLayout)"

section \<open>TLV options (\<open>pdu/options.go\<close>)\<close>

text \<open>
  \<open>Options\<close> wraps a Go map from tag to value. A \<open>*Options\<close> that may be \<open>nil\<close> is an
  \<open>Options option\<close>.
\<close>

type_synonym TagID = uint16
type_synonym Options = "TagID \<rightharpoonup> byte list"

definition TagUserMessageReference :: TagID where "TagUserMessageReference = 0x0204"
definition TagScInterfaceVersion :: TagID where "TagScInterfaceVersion = 0x0210"
definition TagMessagePayload :: TagID where "TagMessagePayload = 0x0424"

definition NewOptions :: Options where
  "NewOptions = Map.empty"

definition PutUint16 :: "uint16 \<Rightarrow> byte list" where
  "PutUint16 v = [ucast (drop_bit 8 v), ucast v]"

definition Uint16 :: "byte \<Rightarrow> byte \<Rightarrow> uint16" where
  "Uint16 b0 b1 = push_bit 8 (ucast b0) OR ucast b1"

definition PutUint32 :: "uint32 \<Rightarrow> byte list" where
  "PutUint32 v = [ucast (drop_bit 24 v), ucast (drop_bit 16 v), ucast (drop_bit 8 v), ucast v]"

definition Uint32 :: "byte \<Rightarrow> byte \<Rightarrow> byte \<Rightarrow> byte \<Rightarrow> uint32" where
  "Uint32 b0 b1 b2 b3 =
     push_bit 24 (ucast b0) OR push_bit 16 (ucast b1) OR push_bit 8 (ucast b2) OR ucast b3"

definition Set :: "Options \<Rightarrow> TagID \<Rightarrow> byte list \<Rightarrow> Options" where
  "Set opts tag val = opts(tag \<mapsto> val)"

definition SetSingle :: "Options \<Rightarrow> TagID \<Rightarrow> int \<Rightarrow> Options" where
  "SetSingle opts tag val = opts(tag \<mapsto> [word_of_int val])"

definition SetDouble :: "Options \<Rightarrow> TagID \<Rightarrow> int \<Rightarrow> Options" where
  "SetDouble opts tag val = opts(tag \<mapsto> PutUint16 (word_of_int val))"

definition SetString :: "Options \<Rightarrow> TagID \<Rightarrow> gostring \<Rightarrow> Options" where
  "SetString opts tag val = opts(tag \<mapsto> val)"

definition SetCString :: "Options \<Rightarrow> TagID \<Rightarrow> gostring \<Rightarrow> Options" where
  "SetCString opts tag val = opts(tag \<mapsto> val @ [0])"

definition Get :: "Options \<Rightarrow> TagID \<Rightarrow> byte list \<times> bool" where
  "Get opts tag = (case opts tag of None \<Rightarrow> ([], False) | Some val \<Rightarrow> (val, True))"

text \<open>
  \<open>GetSingle\<close> reads \<open>val[0]\<close> and \<open>GetDouble\<close> reads \<open>b[1]\<close> and \<open>b[0]\<close> (through
  \<open>binary.BigEndian.Uint16\<close>) without looking at the length: the index expression
  panics on a value that is too short.
\<close>

definition GetSingle :: "Options \<Rightarrow> TagID \<Rightarrow> error + (int \<times> bool)" where
  "GetSingle opts tag =
     (case opts tag of
        None \<Rightarrow> Inr (0, False)
      | Some val \<Rightarrow>
          (case val of [] \<Rightarrow> Inl PanicIndexOutOfRange | b # _ \<Rightarrow> Inr (uint b, True)))"

definition GetDouble :: "Options \<Rightarrow> TagID \<Rightarrow> error + (int \<times> bool)" where
  "GetDouble opts tag =
     (case opts tag of
        None \<Rightarrow> Inr (0, False)
      | Some b \<Rightarrow>
          (case b of
             b0 # b1 # _ \<Rightarrow> Inr (uint (Uint16 b0 b1), True)
           | _ \<Rightarrow> Inl PanicIndexOutOfRange))"

definition GetString :: "Options \<Rightarrow> TagID \<Rightarrow> gostring \<times> bool" where
  "GetString opts tag = (case opts tag of None \<Rightarrow> ([], False) | Some b \<Rightarrow> (b, True))"

definition GetCString :: "Options \<Rightarrow> TagID \<Rightarrow> gostring \<times> bool" where
  "GetCString opts tag =
     (case opts tag of
        None \<Rightarrow> ([], False)
      | Some b \<Rightarrow> (if length b = 0 then ([], False) else (butlast b, True)))"

text \<open>
  \<open>MarshalBinary\<close> ranges over the map, and Go leaves the order of that iteration open.
  The model takes the order as its first argument: the list of the tags in the order in
  which the \<open>range\<close> loop visits them. The length is written as \<open>uint16(len(val))\<close>.
\<close>

fun Options_MarshalBinary :: "TagID list \<Rightarrow> Options \<Rightarrow> byte list" where
  "Options_MarshalBinary [] opts = []"
| "Options_MarshalBinary (tag # order) opts =
     (case opts tag of
        None \<Rightarrow> Options_MarshalBinary order opts
      | Some val \<Rightarrow>
          (PutUint16 tag @ PutUint16 (of_nat (length val)) @ val)
          @ Options_MarshalBinary order opts)"

text \<open>One record on the wire: tag, length and value.\<close>

definition tlv :: "TagID \<Rightarrow> byte list \<Rightarrow> byte list" where
  "tlv t v = PutUint16 t @ PutUint16 (of_nat (length v)) @ v"

text \<open>
  \<open>UnmarshalBinary\<close> writes into the receiver's map while it scans, so the model
  returns the map as the loop left it together with the error, if any.
\<close>

function UnmarshalBinary_loop :: "byte list \<Rightarrow> nat \<Rightarrow> Options \<Rightarrow> Options \<times> error option" where
  "UnmarshalBinary_loop buf n flds =
     (if n < length buf then
        (if int (length buf) - int n \<le> 4 then (flds, Some InvalidOptionalBodyLength)
         else
           (let tag = Uint16 (buf ! n) (buf ! (n + 1));
                l = unat (Uint16 (buf ! (n + 2)) (buf ! (n + 3)))
            in if n + 4 + l \<ge> length buf + 1
               then (flds, Some (InvalidOptionalFieldLength tag l))
               else UnmarshalBinary_loop buf (n + (4 + l))
                      (flds(tag \<mapsto> take l (drop (n + 4) buf)))))
      else (flds, None))"
  by pat_completeness auto
termination
  by (relation "measure (\<lambda>(buf, n, flds). length buf - n)") auto

declare UnmarshalBinary_loop.simps [simp del]

definition Options_UnmarshalBinary :: "Options \<Rightarrow> byte list \<Rightarrow> Options \<times> error option" where
  "Options_UnmarshalBinary flds buf = UnmarshalBinary_loop buf 0 flds"

section \<open>Reading from a PDU body (\<open>pduReader\<close>)\<close>

text \<open>
  The reader is a \<open>bytes.Buffer\<close>: the model passes the bytes not yet read. Each read
  returns its result and the rest.
\<close>

definition ReadByte :: "byte list \<Rightarrow> error + (byte \<times> byte list)" where
  "ReadByte r = (case r of [] \<Rightarrow> Inl EOF | b # r' \<Rightarrow> Inr (b, r'))"

fun ReadCString_loop :: "int \<Rightarrow> int \<Rightarrow> byte list \<Rightarrow> byte list \<Rightarrow> error + (byte list \<times> byte list)" where
  "ReadCString_loop limit i out [] = Inl EOF"
| "ReadCString_loop limit i out (b # r) =
     (if b = 0 then Inr (out, r)
      else if i + 1 = limit then Inl InvalidCStringLength
      else ReadCString_loop limit (i + 1) (out @ [b]) r)"

definition ReadCString :: "int \<Rightarrow> byte list \<Rightarrow> error + (byte list \<times> byte list)" where
  "ReadCString limit r = ReadCString_loop limit 0 [] r"

text \<open>
  \<open>ReadString\<close>: \<open>Buffer.Read\<close> into \<open>l\<close> bytes returns \<open>EOF\<close> on an empty buffer unless
  \<open>l = 0\<close>, and otherwise as many bytes as there are, up to \<open>l\<close>.
\<close>

definition ReadString :: "int \<Rightarrow> byte list \<Rightarrow> error + (byte list \<times> byte list)" where
  "ReadString limit r =
     (case r of
        [] \<Rightarrow> Inl EOF
      | l # r' \<Rightarrow>
          (if uint l > limit then Inl InvalidStringLength
           else if r' = [] \<and> unat l \<noteq> 0 then Inl EOF
           else if length (take (unat l) r') \<noteq> unat l then Inl ReadCountMissmatch
           else Inr (take (unat l) r', drop (unat l) r')))"

text \<open>
  The unmarshalling functions assign the fields of their receiver one after the other
  and return at the first error, leaving the fields assigned so far. A step takes the
  receiver and the unread bytes and gives either both back or the receiver with the
  error; \<open>steps\<close> runs a list of steps in order.
\<close>

type_synonym 'p step = "'p \<times> byte list \<Rightarrow> ('p \<times> error) + ('p \<times> byte list)"

fun steps :: "'p step list \<Rightarrow> 'p step" where
  "steps [] s = Inr s"
| "steps (f # fs) s = (case f s of Inl e \<Rightarrow> Inl e | Inr s' \<Rightarrow> steps fs s')"

definition cstring_step :: "int \<Rightarrow> string \<Rightarrow> (gostring \<Rightarrow> 'p \<Rightarrow> 'p) \<Rightarrow> 'p step" where
  "cstring_step limit fld assign = (\<lambda>(p, buf).
     case ReadCString limit buf of
       Inl e \<Rightarrow> Inl (p, Decoding fld e)
     | Inr (res, buf') \<Rightarrow> Inr (assign res p, buf'))"

definition byte_step :: "string \<Rightarrow> (byte \<Rightarrow> 'p \<Rightarrow> 'p) \<Rightarrow> 'p step" where
  "byte_step fld assign = (\<lambda>(p, buf).
     case ReadByte buf of
       Inl e \<Rightarrow> Inl (p, Decoding fld e)
     | Inr (b, buf') \<Rightarrow> Inr (assign b p, buf'))"

definition time_step :: "gotime \<Rightarrow> string \<Rightarrow> (gotime \<Rightarrow> 'p \<Rightarrow> 'p) \<Rightarrow> 'p step" where
  "time_step now fld assign = (\<lambda>(p, buf).
     case ReadCString 17 buf of
       Inl e \<Rightarrow> Inl (p, Decoding fld e)
     | Inr (res, buf') \<Rightarrow>
         (case Parse now res of
            Inl e \<Rightarrow> Inl (p, Decoding fld e)
          | Inr t \<Rightarrow> Inr (assign t p, buf')))"

definition string_step :: "int \<Rightarrow> string \<Rightarrow> (gostring \<Rightarrow> 'p \<Rightarrow> 'p) \<Rightarrow> 'p step" where
  "string_step limit fld assign = (\<lambda>(p, buf).
     case ReadString limit buf of
       Inl e \<Rightarrow> Inl (p, Decoding fld e)
     | Inr (res, buf') \<Rightarrow> Inr (assign res p, buf'))"

text \<open>\<open>writeTime\<close>: a zero time is the empty C string.\<close>

definition writeTime :: "gotime \<Rightarrow> Layout \<Rightarrow> gotime \<Rightarrow> error + byte list" where
  "writeTime now layout t =
     (if \<not> IsZero t then
        (case Format now layout t of Inl e \<Rightarrow> Inl e | Inr out \<Rightarrow> Inr (out @ [0]))
      else Inr [0])"

section \<open>Command identifiers and status codes (\<open>pdu/constants.go\<close>)\<close>

type_synonym CommandID = uint32
type_synonym Status = uint32

definition MaxPDUSize :: nat where "MaxPDUSize = 4096"

definition StatusOK :: Status where "StatusOK = 0x00000000"
definition StatusInvBnd :: Status where "StatusInvBnd = 0x00000004"
definition StatusThrottled :: Status where "StatusThrottled = 0x00000058"

definition GenericNackID :: CommandID where "GenericNackID = 0x80000000"
definition BindReceiverID :: CommandID where "BindReceiverID = 0x00000001"
definition BindReceiverRespID :: CommandID where "BindReceiverRespID = 0x80000001"
definition BindTransmitterID :: CommandID where "BindTransmitterID = 0x00000002"
definition BindTransmitterRespID :: CommandID where "BindTransmitterRespID = 0x80000002"
definition QuerySmID :: CommandID where "QuerySmID = 0x00000003"
definition QuerySmRespID :: CommandID where "QuerySmRespID = 0x80000003"
definition SubmitSmID :: CommandID where "SubmitSmID = 0x00000004"
definition SubmitSmRespID :: CommandID where "SubmitSmRespID = 0x80000004"
definition DeliverSmID :: CommandID where "DeliverSmID = 0x00000005"
definition DeliverSmRespID :: CommandID where "DeliverSmRespID = 0x80000005"
definition UnbindID :: CommandID where "UnbindID = 0x00000006"
definition UnbindRespID :: CommandID where "UnbindRespID = 0x80000006"
definition ReplaceSmID :: CommandID where "ReplaceSmID = 0x00000007"
definition ReplaceSmRespID :: CommandID where "ReplaceSmRespID = 0x80000007"
definition CancelSmID :: CommandID where "CancelSmID = 0x00000008"
definition CancelSmRespID :: CommandID where "CancelSmRespID = 0x80000008"
definition BindTransceiverID :: CommandID where "BindTransceiverID = 0x00000009"
definition BindTransceiverRespID :: CommandID where "BindTransceiverRespID = 0x80000009"
definition OutbindID :: CommandID where "OutbindID = 0x0000000B"
definition EnquireLinkID :: CommandID where "EnquireLinkID = 0x00000015"
definition EnquireLinkRespID :: CommandID where "EnquireLinkRespID = 0x80000015"
definition SubmitMultiID :: CommandID where "SubmitMultiID = 0x00000021"
definition SubmitMultiRespID :: CommandID where "SubmitMultiRespID = 0x80000021"
definition AlertNotificationID :: CommandID where "AlertNotificationID = 0x00000102"
definition DataSmID :: CommandID where "DataSmID = 0x00000103"
definition DataSmRespID :: CommandID where "DataSmRespID = 0x80000103"

lemmas command_ids =
  GenericNackID_def BindReceiverID_def BindReceiverRespID_def BindTransmitterID_def
  BindTransmitterRespID_def QuerySmID_def QuerySmRespID_def SubmitSmID_def
  SubmitSmRespID_def DeliverSmID_def DeliverSmRespID_def UnbindID_def UnbindRespID_def
  ReplaceSmID_def ReplaceSmRespID_def CancelSmID_def CancelSmRespID_def
  BindTransceiverID_def BindTransceiverRespID_def OutbindID_def EnquireLinkID_def
  EnquireLinkRespID_def SubmitMultiID_def SubmitMultiRespID_def AlertNotificationID_def
  DataSmID_def DataSmRespID_def

section \<open>PDU kinds and their bodies\<close>

record EsmClass =
  Mode :: int
  Type :: int
  Feature :: int

definition EsmClass_Byte :: "EsmClass \<Rightarrow> byte" where
  "EsmClass_Byte ec =
     word_of_int (Mode ec) OR push_bit 2 (word_of_int (Type ec))
       OR push_bit 6 (word_of_int (Feature ec))"

definition ParseEsmClass :: "byte \<Rightarrow> EsmClass" where
  "ParseEsmClass b =
     \<lparr>Mode = uint (b AND 0x03), Type = uint (drop_bit 2 b AND 0x0F), Feature = uint (drop_bit 6 b)\<rparr>"

record RegisteredDelivery =
  Receipt :: int
  SMEAck :: int
  InterNotification :: int

definition RegisteredDelivery_Byte :: "RegisteredDelivery \<Rightarrow> byte" where
  "RegisteredDelivery_Byte rd =
     word_of_int (Receipt rd) OR push_bit 2 (word_of_int (SMEAck rd))
       OR push_bit 4 (word_of_int (InterNotification rd))"

definition ParseRegisteredDelivery :: "byte \<Rightarrow> RegisteredDelivery" where
  "ParseRegisteredDelivery b =
     \<lparr>Receipt = uint (b AND 0x03), SMEAck = uint (drop_bit 2 b AND 0x0F),
      InterNotification = uint (drop_bit 4 b AND 0x01)\<rparr>"

subsection \<open>\<open>submit_sm\<close> and \<open>deliver_sm\<close>\<close>

text \<open>
  \<open>SubmitSm\<close> and \<open>DeliverSm\<close> are two Go structs with the same fields and, up to the
  name in the too-short error, the same marshalling code; the model uses one record
  for both.
\<close>

record SubmitSm =
  ServiceType :: gostring
  SourceAddrTon :: int
  SourceAddrNpi :: int
  SourceAddr :: gostring
  DestAddrTon :: int
  DestAddrNpi :: int
  DestinationAddr :: gostring
  EsmClass :: EsmClass
  ProtocolID :: int
  PriorityFlag :: int
  ScheduleDeliveryTime :: gotime
  ValidityPeriod :: gotime
  RegisteredDelivery :: RegisteredDelivery
  ReplaceIfPresentFlag :: int
  DataCoding :: int
  SmDefaultMsgID :: int
  ShortMessage :: gostring
  Options :: "Options option"

type_synonym DeliverSm = SubmitSm

text \<open>The zero value \<open>SubmitSm{}\<close>.\<close>

definition SubmitSm_zero :: SubmitSm where
  "SubmitSm_zero =
     \<lparr>ServiceType = [], SourceAddrTon = 0, SourceAddrNpi = 0, SourceAddr = [],
      DestAddrTon = 0, DestAddrNpi = 0, DestinationAddr = [],
      EsmClass = \<lparr>Mode = 0, Type = 0, Feature = 0\<rparr>, ProtocolID = 0, PriorityFlag = 0,
      ScheduleDeliveryTime = zero_time, ValidityPeriod = zero_time,
      RegisteredDelivery = \<lparr>Receipt = 0, SMEAck = 0, InterNotification = 0\<rparr>,
      ReplaceIfPresentFlag = 0, DataCoding = 0, SmDefaultMsgID = 0, ShortMessage = [],
      Options = None\<rparr>"

definition SubmitSm_MarshalBinary :: "gotime \<Rightarrow> TagID list \<Rightarrow> SubmitSm \<Rightarrow> error + byte list" where
  "SubmitSm_MarshalBinary now order p =
     (let out = ServiceType p @ [0, word_of_int (SourceAddrTon p), word_of_int (SourceAddrNpi p)];
          out = out @ (SourceAddr p @ [0]);
          out = out @ [word_of_int (DestAddrTon p), word_of_int (DestAddrNpi p)];
          out = out @ (DestinationAddr p @ [0]);
          out = out @ [EsmClass_Byte (EsmClass p), word_of_int (ProtocolID p),
                       word_of_int (PriorityFlag p)]
      in case writeTime now Absolute (ScheduleDeliveryTime p) of
           Inl e \<Rightarrow> Inl e
         | Inr tm \<Rightarrow>
             (let out = out @ tm in
              case writeTime now Absolute (ValidityPeriod p) of
                Inl e \<Rightarrow> Inl e
              | Inr tm \<Rightarrow>
                  (let out = out @ tm;
                       l = length (ShortMessage p);
                       out = out @ [RegisteredDelivery_Byte (RegisteredDelivery p),
                                    word_of_int (ReplaceIfPresentFlag p),
                                    word_of_int (DataCoding p),
                                    word_of_int (SmDefaultMsgID p), of_nat l];
                       out = (if l > 0 then out @ ShortMessage p else out)
                   in case Options p of
                        None \<Rightarrow> Inr out
                      | Some opts \<Rightarrow> Inr (out @ Options_MarshalBinary order opts))))"

definition Sm_steps :: "gotime \<Rightarrow> SubmitSm step list" where
  "Sm_steps now =
     [cstring_step 6 ''service_type'' (\<lambda>v p. p\<lparr>ServiceType := v\<rparr>),
      byte_step ''source_addr_ton'' (\<lambda>b p. p\<lparr>SourceAddrTon := uint b\<rparr>),
      byte_step ''source_addr_npi'' (\<lambda>b p. p\<lparr>SourceAddrNpi := uint b\<rparr>),
      cstring_step 21 ''source_addr'' (\<lambda>v p. p\<lparr>SourceAddr := v\<rparr>),
      byte_step ''dest_addr_ton'' (\<lambda>b p. p\<lparr>DestAddrTon := uint b\<rparr>),
      byte_step ''dest_addr_npi'' (\<lambda>b p. p\<lparr>DestAddrNpi := uint b\<rparr>),
      cstring_step 21 ''dest_addr'' (\<lambda>v p. p\<lparr>DestinationAddr := v\<rparr>),
      byte_step ''esm_class'' (\<lambda>b p. p\<lparr>EsmClass := ParseEsmClass b\<rparr>),
      byte_step ''protocol_id'' (\<lambda>b p. p\<lparr>ProtocolID := uint b\<rparr>),
      byte_step ''priority_flag'' (\<lambda>b p. p\<lparr>PriorityFlag := uint b\<rparr>),
      time_step now ''schedule_delivery_time'' (\<lambda>t p. p\<lparr>ScheduleDeliveryTime := t\<rparr>),
      time_step now ''validity_period'' (\<lambda>t p. p\<lparr>ValidityPeriod := t\<rparr>),
      byte_step ''registered_delivery'' (\<lambda>b p. p\<lparr>RegisteredDelivery := ParseRegisteredDelivery b\<rparr>),
      byte_step ''replace_if_present_flag'' (\<lambda>b p. p\<lparr>ReplaceIfPresentFlag := uint b\<rparr>),
      byte_step ''data_coding'' (\<lambda>b p. p\<lparr>DataCoding := uint b\<rparr>),
      byte_step ''sm_default_msg_id'' (\<lambda>b p. p\<lparr>SmDefaultMsgID := uint b\<rparr>),
      string_step 254 ''short_message'' (\<lambda>v p. p\<lparr>ShortMessage := v\<rparr>)]"

text \<open>
  The receiver \<open>p\<close> is updated in place; the result is the receiver after the call and
  the error, if any. After the mandatory fields, bytes left over are unmarshalled into
  the receiver's options, which are created when they are \<open>nil\<close>.
\<close>

definition Sm_UnmarshalBinary :: "string \<Rightarrow> gotime \<Rightarrow> SubmitSm \<Rightarrow> byte list \<Rightarrow> SubmitSm \<times> error option" where
  "Sm_UnmarshalBinary name now p body =
     (if length body < 25 then (p, Some (BodyTooShort name (length body)))
      else
        (case steps (Sm_steps now) (p, body) of
           Inl (p', e) \<Rightarrow> (p', Some e)
         | Inr (p', buf) \<Rightarrow>
             (if length buf = 0 then (p', None)
              else
                (let opts = (case Options p' of None \<Rightarrow> NewOptions | Some m \<Rightarrow> m)
                 in case Options_UnmarshalBinary opts buf of
                      (opts', err) \<Rightarrow> (p'\<lparr>Options := Some opts'\<rparr>, err)))))"

definition SubmitSm_UnmarshalBinary :: "gotime \<Rightarrow> SubmitSm \<Rightarrow> byte list \<Rightarrow> SubmitSm \<times> error option" where
  "SubmitSm_UnmarshalBinary = Sm_UnmarshalBinary ''submit_sm''"

definition DeliverSm_UnmarshalBinary :: "gotime \<Rightarrow> DeliverSm \<Rightarrow> byte list \<Rightarrow> DeliverSm \<times> error option" where
  "DeliverSm_UnmarshalBinary = Sm_UnmarshalBinary ''deliver_sm''"

subsection \<open>Responses made of a C string and options\<close>

text \<open>
  \<open>cStringOptsRespUnmarshal\<close> looks for the first zero byte; \<open>find_nul\<close> is its loop
  and returns \<open>n\<close>, the index after the terminator, or \<open>-1\<close>.
\<close>

function find_nul :: "byte list \<Rightarrow> nat \<Rightarrow> int" where
  "find_nul body i =
     (if i < length body then (if body ! i = 0 then int i + 1 else find_nul body (i + 1))
      else - 1)"
  by pat_completeness auto
termination
  by (relation "measure (\<lambda>(body, i). length body - i)") auto

declare find_nul.simps [simp del]

definition cStringOptsRespUnmarshal :: "byte list \<Rightarrow> gostring \<times> Options option \<times> error option" where
  "cStringOptsRespUnmarshal body =
     (let n = find_nul body 0 in
      if n < 0 then ([], None, Some CStringNotTerminated)
      else if length (drop (nat n) body) > 0 then
        (case Options_UnmarshalBinary NewOptions (drop (nat n) body) of
           (opts, Some err) \<Rightarrow> ([], None, Some err)
         | (opts, None) \<Rightarrow> (take (nat (n - 1)) body, Some opts, None))
      else (take (nat (n - 1)) body, None, None))"

definition cStringOptsRespMarshal :: "TagID list \<Rightarrow> gostring \<Rightarrow> Options option \<Rightarrow> error + byte list" where
  "cStringOptsRespMarshal order s opts =
     (let out = s @ [0] in
      case opts of
        None \<Rightarrow> Inr out
      | Some m \<Rightarrow> Inr (out @ Options_MarshalBinary order m))"

text \<open>
  \<open>BindTxResp\<close>, \<open>BindRxResp\<close> and \<open>BindTRxResp\<close> are three structs with the fields
  \<open>SystemID\<close> and \<open>Options\<close> and the same two methods; \<open>SubmitSmResp\<close> has \<open>MessageID\<close>
  and \<open>Options\<close>.
\<close>

record BindResp =
  SystemID :: gostring
  Options :: "Options option"

record SubmitSmResp =
  MessageID :: gostring
  Options :: "Options option"

definition BindResp_MarshalBinary :: "TagID list \<Rightarrow> BindResp \<Rightarrow> error + byte list" where
  "BindResp_MarshalBinary order p =
     cStringOptsRespMarshal order (BindResp.SystemID p) (BindResp.Options p)"

definition BindResp_UnmarshalBinary :: "BindResp \<Rightarrow> byte list \<Rightarrow> BindResp \<times> error option" where
  "BindResp_UnmarshalBinary p body =
     (case cStringOptsRespUnmarshal body of
        (sid, opts, err) \<Rightarrow> (p\<lparr>BindResp.SystemID := sid, BindResp.Options := opts\<rparr>, err))"

definition SubmitSmResp_MarshalBinary :: "TagID list \<Rightarrow> SubmitSmResp \<Rightarrow> error + byte list" where
  "SubmitSmResp_MarshalBinary order p =
     cStringOptsRespMarshal order (MessageID p) (SubmitSmResp.Options p)"

definition SubmitSmResp_UnmarshalBinary :: "SubmitSmResp \<Rightarrow> byte list \<Rightarrow> SubmitSmResp \<times> error option" where
  "SubmitSmResp_UnmarshalBinary p body =
     (case cStringOptsRespUnmarshal body of
        (mid, opts, err) \<Rightarrow> (p\<lparr>MessageID := mid, SubmitSmResp.Options := opts\<rparr>, err))"

subsection \<open>The bind requests\<close>

text \<open>\<open>BindTx\<close>, \<open>BindRx\<close> and \<open>BindTRx\<close> have the same fields and call the same two functions.\<close>

record Bind =
  SystemID :: gostring
  Password :: gostring
  SystemType :: gostring
  InterfaceVersion :: int
  AddrTon :: int
  AddrNpi :: int
  AddressRange :: gostring

definition marshalBind :: "Bind \<Rightarrow> error + byte list" where
  "marshalBind p =
     (let out = Bind.SystemID p @ [0];
          out = out @ (Password p @ [0]);
          out = out @ (SystemType p @ [0]);
          out = out @ [word_of_int (InterfaceVersion p), word_of_int (AddrTon p),
                       word_of_int (AddrNpi p)];
          out = out @ (AddressRange p @ [0])
      in Inr out)"

definition unmarshalBind :: "Bind \<Rightarrow> byte list \<Rightarrow> Bind \<times> error option" where
  "unmarshalBind p body =
     (if length body < 7 then (p, Some (BodyTooShort ''bind'' (length body)))
      else
        (case steps
                [cstring_step 16 ''system_id'' (\<lambda>v p. p\<lparr>Bind.SystemID := v\<rparr>),
                 cstring_step 9 ''password'' (\<lambda>v p. p\<lparr>Password := v\<rparr>),
                 cstring_step 13 ''system_type'' (\<lambda>v p. p\<lparr>SystemType := v\<rparr>),
                 byte_step ''interface_version'' (\<lambda>b p. p\<lparr>InterfaceVersion := uint b\<rparr>),
                 byte_step ''addr_ton'' (\<lambda>b p. p\<lparr>AddrTon := uint b\<rparr>),
                 byte_step ''addr_npi'' (\<lambda>b p. p\<lparr>AddrNpi := uint b\<rparr>),
                 cstring_step 41 ''addr_range'' (\<lambda>v p. p\<lparr>AddressRange := v\<rparr>)]
                (p, body) of
           Inl (p', e) \<Rightarrow> (p', Some e)
         | Inr (p', buf) \<Rightarrow> (p', None)))"

subsection \<open>\<open>query_sm\<close>\<close>

record QuerySm =
  MessageID :: gostring
  SourceAddrTon :: int
  SourceAddrNpi :: int
  SourceAddr :: gostring

record QuerySmResp =
  MessageID :: gostring
  FinalDate :: gotime
  MessageState :: int
  ErrorCode :: int

definition QuerySm_MarshalBinary :: "QuerySm \<Rightarrow> error + byte list" where
  "QuerySm_MarshalBinary p =
     (let out = QuerySm.MessageID p @ [0];
          out = out @ [word_of_int (QuerySm.SourceAddrTon p), word_of_int (QuerySm.SourceAddrNpi p)];
          out = out @ (QuerySm.SourceAddr p @ [0])
      in Inr out)"

definition QuerySm_UnmarshalBinary :: "QuerySm \<Rightarrow> byte list \<Rightarrow> QuerySm \<times> error option" where
  "QuerySm_UnmarshalBinary p body =
     (if length body < 6 then (p, Some (BodyTooShort ''query_sm'' (length body)))
      else
        (case steps
                [cstring_step 65 ''message_id'' (\<lambda>v p. p\<lparr>QuerySm.MessageID := v\<rparr>),
                 byte_step ''source_addr_ton'' (\<lambda>b p. p\<lparr>QuerySm.SourceAddrTon := uint b\<rparr>),
                 byte_step ''source_addr_npi'' (\<lambda>b p. p\<lparr>QuerySm.SourceAddrNpi := uint b\<rparr>),
                 cstring_step 21 ''source_addr'' (\<lambda>v p. p\<lparr>QuerySm.SourceAddr := v\<rparr>)]
                (p, body) of
           Inl (p', e) \<Rightarrow> (p', Some e)
         | Inr (p', buf) \<Rightarrow> (p', None)))"

definition QuerySmResp_MarshalBinary :: "gotime \<Rightarrow> QuerySmResp \<Rightarrow> error + byte list" where
  "QuerySmResp_MarshalBinary now p =
     (let out = QuerySmResp.MessageID p @ [0] in
      case writeTime now Absolute (FinalDate p) of
        Inl e \<Rightarrow> Inl e
      | Inr tm \<Rightarrow>
          (let out = out @ tm;
               out = out @ [word_of_int (MessageState p), word_of_int (ErrorCode p)]
           in Inr out))"

definition QuerySmResp_UnmarshalBinary :: "gotime \<Rightarrow> QuerySmResp \<Rightarrow> byte list \<Rightarrow> QuerySmResp \<times> error option" where
  "QuerySmResp_UnmarshalBinary now p body =
     (if length body < 6 then (p, Some (BodyTooShort ''query_sm'' (length body)))
      else
        (case steps
                [cstring_step 65 ''message_id'' (\<lambda>v p. p\<lparr>QuerySmResp.MessageID := v\<rparr>),
                 time_step now ''final_date'' (\<lambda>t p. p\<lparr>FinalDate := t\<rparr>),
                 byte_step ''message_state'' (\<lambda>b p. p\<lparr>MessageState := uint b\<rparr>),
                 byte_step ''error_code'' (\<lambda>b p. p\<lparr>ErrorCode := uint b\<rparr>)]
                (p, body) of
           Inl (p', e) \<Rightarrow> (p', Some e)
         | Inr (p', buf) \<Rightarrow> (p', None)))"

subsection \<open>The PDU interface\<close>

text \<open>
  One constructor per struct that implements \<open>pdu.PDU\<close>. \<open>DeliverSmResp\<close> carries its
  \<open>MessageID\<close>. The structs of \<open>notsupportedyet.go\<close> have no fields.
\<close>

datatype PDU =
    GenericNack
  | BindRx Bind
  | BindRxResp BindResp
  | BindTx Bind
  | BindTxResp BindResp
  | BindTRx Bind
  | BindTRxResp BindResp
  | EnquireLink
  | EnquireLinkResp
  | QuerySm QuerySm
  | QuerySmResp QuerySmResp
  | SubmitSm SubmitSm
  | SubmitSmResp SubmitSmResp
  | DeliverSm DeliverSm
  | DeliverSmResp gostring
  | Unbind
  | UnbindResp
  | ReplaceSm
  | ReplaceSmResp
  | CancelSm
  | CancelSmResp
  | Outbind
  | SubmitMulti
  | SubmitMultiResp
  | AlertNotification
  | DataSm
  | DataSmResp

fun CommandID :: "PDU \<Rightarrow> CommandID" where
  "CommandID GenericNack = GenericNackID"
| "CommandID (BindRx p) = BindReceiverID"
| "CommandID (BindRxResp p) = BindReceiverRespID"
| "CommandID (BindTx p) = BindTransmitterID"
| "CommandID (BindTxResp p) = BindTransmitterRespID"
| "CommandID (BindTRx p) = BindTransceiverID"
| "CommandID (BindTRxResp p) = BindTransceiverRespID"
| "CommandID EnquireLink = EnquireLinkID"
| "CommandID EnquireLinkResp = EnquireLinkRespID"
| "CommandID (QuerySm p) = QuerySmID"
| "CommandID (QuerySmResp p) = QuerySmRespID"
| "CommandID (SubmitSm p) = SubmitSmID"
| "CommandID (SubmitSmResp p) = SubmitSmRespID"
| "CommandID (DeliverSm p) = DeliverSmID"
| "CommandID (DeliverSmResp p) = DeliverSmRespID"
| "CommandID Unbind = UnbindID"
| "CommandID UnbindResp = UnbindRespID"
| "CommandID ReplaceSm = ReplaceSmID"
| "CommandID ReplaceSmResp = ReplaceSmRespID"
| "CommandID CancelSm = CancelSmID"
| "CommandID CancelSmResp = CancelSmRespID"
| "CommandID Outbind = OutbindID"
| "CommandID SubmitMulti = SubmitMultiID"
| "CommandID SubmitMultiResp = SubmitMultiRespID"
| "CommandID AlertNotification = AlertNotificationID"
| "CommandID DataSm = DataSmID"
| "CommandID DataSmResp = DataSmRespID"

text \<open>
  \<open>p.MarshalBinary()\<close>. The empty PDUs return a \<open>nil\<close> slice, \<open>DeliverSmResp\<close> a single
  zero byte, the unsupported ones an error.
\<close>

fun MarshalBinary :: "gotime \<Rightarrow> TagID list \<Rightarrow> PDU \<Rightarrow> error + byte list" where
  "MarshalBinary now order GenericNack = Inr []"
| "MarshalBinary now order (BindRx p) = marshalBind p"
| "MarshalBinary now order (BindRxResp p) = BindResp_MarshalBinary order p"
| "MarshalBinary now order (BindTx p) = marshalBind p"
| "MarshalBinary now order (BindTxResp p) = BindResp_MarshalBinary order p"
| "MarshalBinary now order (BindTRx p) = marshalBind p"
| "MarshalBinary now order (BindTRxResp p) = BindResp_MarshalBinary order p"
| "MarshalBinary now order EnquireLink = Inr []"
| "MarshalBinary now order EnquireLinkResp = Inr []"
| "MarshalBinary now order (QuerySm p) = QuerySm_MarshalBinary p"
| "MarshalBinary now order (QuerySmResp p) = QuerySmResp_MarshalBinary now p"
| "MarshalBinary now order (SubmitSm p) = SubmitSm_MarshalBinary now order p"
| "MarshalBinary now order (SubmitSmResp p) = SubmitSmResp_MarshalBinary order p"
| "MarshalBinary now order (DeliverSm p) = SubmitSm_MarshalBinary now order p"
| "MarshalBinary now order (DeliverSmResp p) = Inr [0]"
| "MarshalBinary now order Unbind = Inr []"
| "MarshalBinary now order UnbindResp = Inr []"
| "MarshalBinary now order p = Inl (NotSupportedYet (CommandID p))"

text \<open>\<open>p.UnmarshalBinary(body)\<close>: the receiver after the call, and the error.\<close>

fun UnmarshalBinary :: "gotime \<Rightarrow> PDU \<Rightarrow> byte list \<Rightarrow> PDU \<times> error option" where
  "UnmarshalBinary now GenericNack body = (GenericNack, None)"
| "UnmarshalBinary now (BindRx p) body =
     (case unmarshalBind p body of (p', e) \<Rightarrow> (BindRx p', e))"
| "UnmarshalBinary now (BindRxResp p) body =
     (case BindResp_UnmarshalBinary p body of (p', e) \<Rightarrow> (BindRxResp p', e))"
| "UnmarshalBinary now (BindTx p) body =
     (case unmarshalBind p body of (p', e) \<Rightarrow> (BindTx p', e))"
| "UnmarshalBinary now (BindTxResp p) body =
     (case BindResp_UnmarshalBinary p body of (p', e) \<Rightarrow> (BindTxResp p', e))"
| "UnmarshalBinary now (BindTRx p) body =
     (case unmarshalBind p body of (p', e) \<Rightarrow> (BindTRx p', e))"
| "UnmarshalBinary now (BindTRxResp p) body =
     (case BindResp_UnmarshalBinary p body of (p', e) \<Rightarrow> (BindTRxResp p', e))"
| "UnmarshalBinary now EnquireLink body = (EnquireLink, None)"
| "UnmarshalBinary now EnquireLinkResp body = (EnquireLinkResp, None)"
| "UnmarshalBinary now (QuerySm p) body =
     (case QuerySm_UnmarshalBinary p body of (p', e) \<Rightarrow> (QuerySm p', e))"
| "UnmarshalBinary now (QuerySmResp p) body =
     (case QuerySmResp_UnmarshalBinary now p body of (p', e) \<Rightarrow> (QuerySmResp p', e))"
| "UnmarshalBinary now (SubmitSm p) body =
     (case SubmitSm_UnmarshalBinary now p body of (p', e) \<Rightarrow> (SubmitSm p', e))"
| "UnmarshalBinary now (SubmitSmResp p) body =
     (case SubmitSmResp_UnmarshalBinary p body of (p', e) \<Rightarrow> (SubmitSmResp p', e))"
| "UnmarshalBinary now (DeliverSm p) body =
     (case DeliverSm_UnmarshalBinary now p body of (p', e) \<Rightarrow> (DeliverSm p', e))"
| "UnmarshalBinary now (DeliverSmResp p) body = (DeliverSmResp p, None)"
| "UnmarshalBinary now Unbind body = (Unbind, None)"
| "UnmarshalBinary now UnbindResp body = (UnbindResp, None)"
| "UnmarshalBinary now p body = (p, Some (NotSupportedYet (CommandID p)))"

section \<open>Sequencer and encoder\<close>

text \<open>
  A \<open>Sequencer\<close> is an interface. \<open>defaultSequencer n\<close> is the struct of that name with
  its counter; \<open>otherSequencer f i\<close> stands for any other implementation, which hands
  out \<open>f i\<close> at its \<open>i\<close>-th call. The counter is a \<open>uint32\<close>: \<open>seq.n++\<close> wraps around.
\<close>

datatype Sequencer = defaultSequencer uint32 | otherSequencer "nat \<Rightarrow> uint32" nat

definition NewSequencer :: "uint32 \<Rightarrow> Sequencer" where
  "NewSequencer n = defaultSequencer (if n = 0 then 1 else n)"

fun Next :: "Sequencer \<Rightarrow> uint32 \<times> Sequencer" where
  "Next (defaultSequencer n) = (n, defaultSequencer (n + 1))"
| "Next (otherSequencer f i) = (f i, otherSequencer f (Suc i))"

text \<open>The values of \<open>k\<close> successive calls of \<open>Next\<close>.\<close>

fun Next_calls :: "nat \<Rightarrow> Sequencer \<Rightarrow> uint32 list" where
  "Next_calls 0 sq = []"
| "Next_calls (Suc k) sq = (case Next sq of (n, sq') \<Rightarrow> n # Next_calls k sq')"

text \<open>
  The byte stream under an encoder or a session: what has been written to it and
  whether it has been closed. A write to an open stream appends all the bytes; a write
  to a closed stream fails.
\<close>

record Stream =
  written :: "byte list"
  stream_closed :: bool

definition Write :: "Stream \<Rightarrow> byte list \<Rightarrow> Stream \<times> error option" where
  "Write st buf =
     (if stream_closed st then (st, Some WriteFailed)
      else (st\<lparr>written := written st @ buf\<rparr>, None))"

record Encoder =
  w :: Stream
  seq :: Sequencer

definition NewEncoder :: "Stream \<Rightarrow> Sequencer option \<Rightarrow> Encoder" where
  "NewEncoder st sq = \<lparr>w = st, seq = (case sq of None \<Rightarrow> NewSequencer 1 | Some s \<Rightarrow> s)\<rparr>"

record encoderOpts =
  seq :: uint32
  status :: Status

datatype EncoderOption = EncodeSeq uint32 | EncodeStatus Status

fun apply_option :: "encoderOpts \<Rightarrow> EncoderOption \<Rightarrow> encoderOpts" where
  "apply_option eOpts (EncodeSeq n) = eOpts\<lparr>encoderOpts.seq := n\<rparr>"
| "apply_option eOpts (EncodeStatus st) = eOpts\<lparr>status := st\<rparr>"

text \<open>
  \<open>Encode\<close> returns the sequence number and the error, and leaves the encoder changed:
  the model returns all three. There is no check of \<open>l\<close> against \<open>MaxPDUSize\<close>.
\<close>

definition Encode :: "gotime \<Rightarrow> TagID list \<Rightarrow> Encoder \<Rightarrow> PDU \<Rightarrow> EncoderOption list
    \<Rightarrow> (uint32 \<times> error option) \<times> Encoder" where
  "Encode now order en p opts =
     (case MarshalBinary now order p of
        Inl err \<Rightarrow> ((0, Some err), en)
      | Inr body \<Rightarrow>
          (let eOpts = foldl apply_option \<lparr>encoderOpts.seq = 0, status = 0\<rparr> opts;
               l = length body + 16;
               hdr = PutUint32 (of_nat l) @ PutUint32 (CommandID p) @ PutUint32 (status eOpts)
           in case (if encoderOpts.seq eOpts = 0 then Next (Encoder.seq en)
                    else (encoderOpts.seq eOpts, Encoder.seq en)) of
                (n, sq) \<Rightarrow>
                  (case Write (w en) (hdr @ PutUint32 n @ body) of
                     (st, err) \<Rightarrow> ((n, err), \<lparr>w = st, seq = sq\<rparr>))))"

section \<open>Header and decoder (\<open>pdu/header.go\<close>, \<open>Decoder\<close>)\<close>

record header =
  h_length :: uint32
  h_commandID :: CommandID
  h_status :: Status
  h_sequence :: uint32

definition header_zero :: header where
  "header_zero = \<lparr>h_length = 0, h_commandID = 0, h_status = 0, h_sequence = 0\<rparr>"

text \<open>
  \<open>header.UnmarshalBinary\<close> slices \<open>body[:4]\<close> to \<open>body[12:16]\<close>, which panics on a
  shorter slice; the decoder always passes sixteen bytes. The length is stored before
  it is checked.
\<close>

definition header_UnmarshalBinary :: "header \<Rightarrow> byte list \<Rightarrow> header \<times> error option" where
  "header_UnmarshalBinary h body =
     (if length body < 16 then (h, Some PanicIndexOutOfRange)
      else
        (let h = h\<lparr>h_length := Uint32 (body ! 0) (body ! 1) (body ! 2) (body ! 3)\<rparr> in
         if h_length h < 16 then (h, Some PduLengthUnderLowerLimit)
         else if h_length h > of_nat MaxPDUSize then (h, Some PduLengthOverUpperLimit)
         else
           (h\<lparr>h_commandID := Uint32 (body ! 4) (body ! 5) (body ! 6) (body ! 7),
              h_status := Uint32 (body ! 8) (body ! 9) (body ! 10) (body ! 11),
              h_sequence := Uint32 (body ! 12) (body ! 13) (body ! 14) (body ! 15)\<rparr>,
            None)))"

text \<open>The zero values of the structs with fields, and \<open>NewPDU\<close>, which panics on an unknown command.\<close>

definition Bind_zero :: Bind where
  "Bind_zero =
     \<lparr>Bind.SystemID = [], Password = [], SystemType = [], InterfaceVersion = 0, AddrTon = 0,
      AddrNpi = 0, AddressRange = []\<rparr>"

definition BindResp_zero :: BindResp where
  "BindResp_zero = \<lparr>BindResp.SystemID = [], BindResp.Options = None\<rparr>"

definition QuerySm_zero :: QuerySm where
  "QuerySm_zero =
     \<lparr>QuerySm.MessageID = [], QuerySm.SourceAddrTon = 0, QuerySm.SourceAddrNpi = 0,
      QuerySm.SourceAddr = []\<rparr>"

definition QuerySmResp_zero :: QuerySmResp where
  "QuerySmResp_zero =
     \<lparr>QuerySmResp.MessageID = [], FinalDate = zero_time, MessageState = 0, ErrorCode = 0\<rparr>"

definition SubmitSmResp_zero :: SubmitSmResp where
  "SubmitSmResp_zero = \<lparr>SubmitSmResp.MessageID = [], SubmitSmResp.Options = None\<rparr>"

definition NewPDU :: "CommandID \<Rightarrow> error + PDU" where
  "NewPDU cid =
     (if cid = GenericNackID then Inr GenericNack
      else if cid = BindReceiverID then Inr (BindRx Bind_zero)
      else if cid = BindReceiverRespID then Inr (BindRxResp BindResp_zero)
      else if cid = BindTransmitterID then Inr (BindTx Bind_zero)
      else if cid = BindTransmitterRespID then Inr (BindTxResp BindResp_zero)
      else if cid = BindTransceiverID then Inr (BindTRx Bind_zero)
      else if cid = BindTransceiverRespID then Inr (BindTRxResp BindResp_zero)
      else if cid = EnquireLinkID then Inr EnquireLink
      else if cid = EnquireLinkRespID then Inr EnquireLinkResp
      else if cid = QuerySmID then Inr (QuerySm QuerySm_zero)
      else if cid = QuerySmRespID then Inr (QuerySmResp QuerySmResp_zero)
      else if cid = SubmitSmID then Inr (SubmitSm SubmitSm_zero)
      else if cid = SubmitSmRespID then Inr (SubmitSmResp SubmitSmResp_zero)
      else if cid = DeliverSmID then Inr (DeliverSm SubmitSm_zero)
      else if cid = DeliverSmRespID then Inr (DeliverSmResp [])
      else if cid = UnbindID then Inr Unbind
      else if cid = UnbindRespID then Inr UnbindResp
      else if cid = ReplaceSmID then Inr ReplaceSm
      else if cid = ReplaceSmRespID then Inr ReplaceSmResp
      else if cid = CancelSmID then Inr CancelSm
      else if cid = CancelSmRespID then Inr CancelSmResp
      else if cid = OutbindID then Inr Outbind
      else if cid = SubmitMultiID then Inr SubmitMulti
      else if cid = SubmitMultiRespID then Inr SubmitMultiResp
      else if cid = AlertNotificationID then Inr AlertNotification
      else if cid = DataSmID then Inr DataSm
      else if cid = DataSmRespID then Inr DataSmResp
      else Inl PanicUnsupportedPduCommand)"

text \<open>
  \<open>Decode\<close> reads from a stream; the model's argument is the bytes the stream delivers
  before it ends. \<open>io.ReadFull\<close> returns \<open>EOF\<close> when there is nothing to read and
  \<open>ErrUnexpectedEOF\<close> when the stream ends early. The result is the header and the PDU,
  where \<open>Decode\<close> returns them, the error, and the bytes not read. A frame of length 16
  is returned as the new PDU, without a call of \<open>UnmarshalBinary\<close>.
\<close>

definition ReadFull :: "byte list \<Rightarrow> nat \<Rightarrow> error + (byte list \<times> byte list)" where
  "ReadFull r n =
     (if n = 0 then Inr ([], r)
      else if r = [] then Inl EOF
      else if length r < n then Inl UnexpectedEOF
      else Inr (take n r, drop n r))"

definition Decode :: "gotime \<Rightarrow> byte list
    \<Rightarrow> (header option \<times> PDU option \<times> error option) \<times> byte list" where
  "Decode now r =
     (case ReadFull r 16 of
        Inl err \<Rightarrow> ((None, None, Some err), [])
      | Inr (headerBytes, r) \<Rightarrow>
          (case header_UnmarshalBinary header_zero headerBytes of
             (h, Some err) \<Rightarrow> ((Some h, None, Some err), r)
           | (h, None) \<Rightarrow>
               (if h_length h < 16
                then ((Some h, None, Some (InvalidPduHeaderLength (h_length h))), r)
                else
                  (case NewPDU (h_commandID h) of
                     Inl panic \<Rightarrow> ((Some h, None, Some panic), r)
                   | Inr pdu \<Rightarrow>
                       (if h_length h = 16 then ((Some h, Some pdu, None), r)
                        else
                          (case ReadFull r (unat (h_length h - 16)) of
                             Inl err \<Rightarrow>
                               ((Some h, Some pdu,
                                 Some (PduLengthMismatch (h_length h) (unat (h_length h - 16)))),
                                [])
                           | Inr (bodyBytes, r) \<Rightarrow>
                               (case UnmarshalBinary now pdu bodyBytes of
                                  (pdu', Some err) \<Rightarrow> ((Some h, Some pdu', Some err), r)
                                | (pdu', None) \<Rightarrow> ((Some h, Some pdu', None), r))))))))"

section \<open>The session (\<open>session.go\<close>)\<close>

text \<open>
  Of the configuration the model keeps the fields the state machine and \<open>Send\<close> read.
  The state hook \<open>conf.SessionState\<close> is user code: \<open>hook_set\<close> says whether it is not
  \<open>nil\<close>, and the session records each call of it in \<open>hook_calls\<close>.
\<close>

record SessionConf =
  Type :: SessionType
  SendWinSize :: int
  ReqWinSize :: int
  hook_set :: bool
  SystemID :: gostring
  ID :: gostring
  Sequencer :: "Sequencer option"

text \<open>The zero value \<open>SessionConf{}\<close>.\<close>

definition SessionConf_zero :: SessionConf where
  "SessionConf_zero =
     \<lparr>Type = ESME, SendWinSize = 0, ReqWinSize = 0, hook_set = False, SystemID = [],
      ID = [], Sequencer = None\<rparr>"

text \<open>
  A reply slot is a channel of capacity one. The session's channels live in the list
  \<open>chans\<close>, a channel is named by its index, and \<open>sent\<close> maps a sequence number to the
  channel waiting for its response. The encoder writes to the session's own stream
  \<open>rwc\<close>, so the model keeps the stream once and the encoder's sequencer beside it.
  \<open>closed\<close> says whether the channel of \<open>NotifyClosed\<close> has been closed, and \<open>wg\<close> is
  the counter of the wait group: the number of tasks the session has started and not
  yet seen end (the receive loop \<open>serve\<close>, and one handler task for each request in
  flight).
\<close>

datatype chan = ChanEmpty | ChanClosed

record Session =
  conf :: SessionConf
  rwc :: Stream
  enc_seq :: Sequencer
  reqCount :: int
  sent :: "uint32 \<rightharpoonup> nat"
  chans :: "chan list"
  state :: SessionState
  systemID :: gostring
  closed :: bool
  hook_calls :: "(gostring \<times> gostring \<times> SessionState) list"
  wg :: nat

text \<open>
  \<open>NewSession\<close> fills in the defaults and starts in \<open>StateOpen\<close> (the zero value of
  \<open>SessionState\<close>). \<open>random_id\<close> is what \<open>genSessionID\<close> returns. It registers the
  receive loop in the wait group (\<open>sess.wg.Add(1)\<close>) and starts it.
\<close>

definition NewSession :: "gostring \<Rightarrow> Stream \<Rightarrow> SessionConf \<Rightarrow> Session" where
  "NewSession random_id st cf =
     (let cf = (if SendWinSize cf = 0 then cf\<lparr>SendWinSize := 10\<rparr> else cf);
          cf = (if ReqWinSize cf = 0 then cf\<lparr>ReqWinSize := 10\<rparr> else cf);
          cf = (if ID cf = [] then cf\<lparr>ID := random_id\<rparr> else cf)
      in \<lparr>conf = cf, rwc = st, enc_seq = Encoder.seq (NewEncoder st (Sequencer cf)),
          reqCount = 0, sent = Map.empty, chans = [], state = StateOpen, systemID = [],
          closed = False, hook_calls = [], wg = 1\<rparr>)"

definition Session_SystemID :: "Session \<Rightarrow> gostring" where
  "Session_SystemID sess =
     (if SessionConf.SystemID (conf sess) \<noteq> [] then SessionConf.SystemID (conf sess)
      else if systemID sess \<noteq> [] then systemID sess
      else str ''-'')"

text \<open>\<open>setState\<close>: the error, if any, and the session after the call.\<close>

definition setState_valid :: "SessionState \<Rightarrow> SessionState \<Rightarrow> error option" where
  "setState_valid cur st =
     (if cur = st then Some (SettingSameStateTwice st)
      else case cur of
        StateOpen \<Rightarrow>
          (if st \<noteq> StateBinding then Some (SettingOpenToInvalidState st) else None)
      | StateBinding \<Rightarrow>
          (if st = StateOpen \<or> st = StateBoundRx \<or> st = StateBoundTRx \<or> st = StateBoundTx
           then None else Some (SettingBindingToInvalidState st))
      | StateBoundRx \<Rightarrow>
          (if st = StateUnbinding \<or> st = StateClosing then None
           else Some (SettingBoundToInvalidState st))
      | StateBoundTRx \<Rightarrow>
          (if st = StateUnbinding \<or> st = StateClosing then None
           else Some (SettingBoundToInvalidState st))
      | StateBoundTx \<Rightarrow>
          (if st = StateUnbinding \<or> st = StateClosing then None
           else Some (SettingBoundToInvalidState st))
      | StateUnbinding \<Rightarrow>
          (if st \<noteq> StateClosing then Some (SettingUnbindingToInvalidState st) else None)
      | StateClosing \<Rightarrow>
          (if st \<noteq> StateClosed then Some (SettingClosingToInvalidState st) else None)
      | StateClosed \<Rightarrow> Some (AlreadyInClosedState st))"

definition setState :: "Session \<Rightarrow> SessionState \<Rightarrow> error option \<times> Session" where
  "setState sess st =
     (case setState_valid (state sess) st of
        Some err \<Rightarrow> (Some err, sess)
      | None \<Rightarrow>
          (let sess = sess\<lparr>state := st\<rparr> in
           if hook_set (conf sess)
           then (None, sess\<lparr>hook_calls := hook_calls sess
                    @ [(ID (conf sess), Session_SystemID sess, state sess)]\<rparr>)
           else (None, sess)))"

text \<open>
  \<open>makeTransition\<close>. The two outer branches are the two role-normalised directions;
  in each, the inner switch on the state lists the command identifiers that pass.
  What falls through every switch ends in the temporary error.
\<close>

definition makeTransition :: "Session \<Rightarrow> CommandID \<Rightarrow> bool \<Rightarrow> error option \<times> Session" where
  "makeTransition sess cid received =
     (let invalid = (Some (SessionError (ProcessingInInvalidState cid (state sess)) True), sess) in
      if (Type (conf sess) = ESME \<and> \<not> received) \<or> (Type (conf sess) = SMSC \<and> received) then
        (case state sess of
           StateOpen \<Rightarrow>
             (if cid = BindTransceiverID \<or> cid = BindTransmitterID \<or> cid = BindReceiverID
              then setState sess StateBinding else invalid)
         | StateBinding \<Rightarrow>
             (if cid = GenericNackID then setState sess StateOpen else invalid)
         | StateBoundTx \<Rightarrow>
             (if cid = UnbindID then setState sess StateUnbinding
              else if cid \<in> {UnbindRespID, DeliverSmRespID, DataSmID, SubmitSmID, SubmitMultiID,
                     DataSmRespID, EnquireLinkID, EnquireLinkRespID, ReplaceSmID, GenericNackID}
              then (None, sess) else invalid)
         | StateBoundRx \<Rightarrow>
             (if cid = UnbindID then setState sess StateUnbinding
              else if cid \<in> {UnbindRespID, DeliverSmRespID, DataSmID,
                     DataSmRespID, EnquireLinkID, EnquireLinkRespID, GenericNackID}
              then (None, sess) else invalid)
         | StateBoundTRx \<Rightarrow>
             (if cid = UnbindID then setState sess StateUnbinding
              else if cid \<in> {SubmitSmID, SubmitSmRespID, DeliverSmRespID,
                     DataSmID, DataSmRespID, EnquireLinkID, EnquireLinkRespID, SubmitMultiID,
                     SubmitMultiRespID, QuerySmID, CancelSmID, GenericNackID}
              then (None, sess) else invalid)
         | StateUnbinding \<Rightarrow>
             (if cid = UnbindRespID then (None, sess) else invalid)
         | StateClosing \<Rightarrow> invalid
         | StateClosed \<Rightarrow> invalid)
      else if (Type (conf sess) = SMSC \<and> \<not> received) \<or> (Type (conf sess) = ESME \<and> received) then
        (case state sess of
           StateOpen \<Rightarrow>
             (if cid = OutbindID then (None, sess) else invalid)
         | StateBinding \<Rightarrow>
             (if cid = BindTransceiverRespID then setState sess StateBoundTRx
              else if cid = BindTransmitterRespID then setState sess StateBoundTx
              else if cid = BindReceiverRespID then setState sess StateBoundRx
              else if cid = GenericNackID then setState sess StateOpen
              else invalid)
         | StateBoundTx \<Rightarrow>
             (if cid = UnbindID then setState sess StateUnbinding
              else if cid \<in> {SubmitSmRespID, SubmitMultiRespID, DataSmID, DataSmRespID,
                     QuerySmRespID, CancelSmRespID, ReplaceSmRespID, EnquireLinkID,
                     EnquireLinkRespID, GenericNackID}
              then (None, sess) else invalid)
         | StateBoundRx \<Rightarrow>
             (if cid = UnbindID then setState sess StateUnbinding
              else if cid \<in> {DeliverSmID, DataSmID, DataSmRespID,
                     EnquireLinkID, EnquireLinkRespID, AlertNotificationID, GenericNackID}
              then (None, sess) else invalid)
         | StateBoundTRx \<Rightarrow>
             (if cid = UnbindID then setState sess StateUnbinding
              else if cid \<in> {SubmitSmRespID, SubmitMultiRespID, DataSmID, DataSmRespID, DeliverSmID,
                     QuerySmRespID, CancelSmRespID, AlertNotificationID, ReplaceSmRespID,
                     EnquireLinkID, EnquireLinkRespID, GenericNackID}
              then (None, sess) else invalid)
         | StateUnbinding \<Rightarrow>
             (if cid = UnbindRespID then (None, sess) else invalid)
         | StateClosing \<Rightarrow> invalid
         | StateClosed \<Rightarrow> invalid)
      else invalid)"

text \<open>
  The table of the state machine that \<open>makeTransition\<close> implements, for the statement
  of what it refuses. \<open>to_server\<close> is the direction from the ESME to the SMSC (an ESME
  sending, an SMSC receiving). Six commands pass in every bound state and in both
  directions (\<open>bound_events\<close>); \<open>server_events\<close> and \<open>client_events\<close> give, for each
  state, all the commands that pass towards the server and towards the client;
  \<open>in_table typ st cid received\<close> says that the command is one of them for a session of
  type \<open>typ\<close>, and \<open>target\<close> is the state after an event of the table.
\<close>

definition to_server :: "SessionType \<Rightarrow> bool \<Rightarrow> bool" where
  "to_server typ received \<longleftrightarrow> (typ = ESME \<and> \<not> received) \<or> (typ = SMSC \<and> received)"

definition bound_events :: "CommandID set" where
  "bound_events =
     {UnbindID, DataSmID, DataSmRespID, EnquireLinkID, EnquireLinkRespID, GenericNackID}"

fun server_events :: "SessionState \<Rightarrow> CommandID set" where
  "server_events StateOpen = {BindTransmitterID, BindReceiverID, BindTransceiverID}"
| "server_events StateBinding = {GenericNackID}"
| "server_events StateBoundTx =
     bound_events \<union> {UnbindRespID, DeliverSmRespID, SubmitSmID, SubmitMultiID, ReplaceSmID}"
| "server_events StateBoundRx = bound_events \<union> {UnbindRespID, DeliverSmRespID}"
| "server_events StateBoundTRx =
     bound_events \<union> {DeliverSmRespID, SubmitSmID, SubmitSmRespID, SubmitMultiID,
                      SubmitMultiRespID, QuerySmID, CancelSmID}"
| "server_events StateUnbinding = {UnbindRespID}"
| "server_events StateClosing = {}"
| "server_events StateClosed = {}"

fun client_events :: "SessionState \<Rightarrow> CommandID set" where
  "client_events StateOpen = {OutbindID}"
| "client_events StateBinding =
     {BindTransmitterRespID, BindReceiverRespID, BindTransceiverRespID, GenericNackID}"
| "client_events StateBoundTx =
     bound_events \<union> {SubmitSmRespID, SubmitMultiRespID, QuerySmRespID, CancelSmRespID,
                      ReplaceSmRespID}"
| "client_events StateBoundRx = bound_events \<union> {DeliverSmID, AlertNotificationID}"
| "client_events StateBoundTRx =
     bound_events \<union> {SubmitSmRespID, SubmitMultiRespID, QuerySmRespID, CancelSmRespID,
                      ReplaceSmRespID, DeliverSmID, AlertNotificationID}"
| "client_events StateUnbinding = {UnbindRespID}"
| "client_events StateClosing = {}"
| "client_events StateClosed = {}"

definition in_table :: "SessionType \<Rightarrow> SessionState \<Rightarrow> CommandID \<Rightarrow> bool \<Rightarrow> bool" where
  "in_table typ st cid received \<longleftrightarrow>
     (if to_server typ received then cid \<in> server_events st else cid \<in> client_events st)"

definition target :: "SessionState \<Rightarrow> CommandID \<Rightarrow> SessionState" where
  "target st cid =
     (if st = StateOpen then (if cid = OutbindID then StateOpen else StateBinding)
      else if st = StateBinding then
        (if cid = BindTransceiverRespID then StateBoundTRx
         else if cid = BindTransmitterRespID then StateBoundTx
         else if cid = BindReceiverRespID then StateBoundRx
         else StateOpen)
      else if cid = UnbindID then StateUnbinding
      else st)"

text \<open>
  Two rows of the table of the specification (section 4.7), in its words. For \<open>Open\<close>
  the table has one row, whose events are \<open>bind_transmitter\<close>, \<open>bind_receiver\<close> and
  \<open>bind_transceiver\<close>. For \<open>BoundTx\<close> the list of what an ESME may send is \<open>submit_sm\<close>,
  \<open>submit_multi\<close>, \<open>data_sm\<close>, \<open>query_sm\<close>, \<open>cancel_sm\<close>, \<open>replace_sm\<close>, \<open>enquire_link\<close>
  and \<open>generic_nack\<close>, to which the row of \<open>unbind\<close> for the bound states adds \<open>unbind\<close>.
\<close>

definition spec_Open_events :: "CommandID set" where
  "spec_Open_events = {BindTransmitterID, BindReceiverID, BindTransceiverID}"

definition spec_BoundTx_ESME_may_send :: "CommandID set" where
  "spec_BoundTx_ESME_may_send =
     {SubmitSmID, SubmitMultiID, DataSmID, QuerySmID, CancelSmID, ReplaceSmID, EnquireLinkID,
      GenericNackID, UnbindID}"

text \<open>
  \<open>Send\<close>, up to the point where it starts to wait: the part under the session's
  mutex. A \<open>nil\<close> request is \<open>None\<close>. The result is the error with which \<open>Send\<close> returns
  at once, or the sequence number and the channel on which it goes on to wait.
  \<open>len(sess.sent)\<close> is the number of keys of the map.
\<close>

definition Send_locked :: "gotime \<Rightarrow> TagID list \<Rightarrow> Session \<Rightarrow> PDU option
    \<Rightarrow> (error + (uint32 \<times> nat)) \<times> Session" where
  "Send_locked now order sess req =
     (case req of
        None \<Rightarrow> (Inl (SessionError SendingNilPdu False), sess)
      | Some p \<Rightarrow>
          (if int (card (dom (sent sess))) = SendWinSize (conf sess)
           then (Inl (SessionError SendingWindowClosed True), sess)
           else
             (case makeTransition sess (CommandID p) False of
                (Some err, sess) \<Rightarrow> (Inl err, sess)
              | (None, sess) \<Rightarrow>
                  (case Encode now order \<lparr>w = rwc sess, seq = enc_seq sess\<rparr> p [] of
                     ((n, err), en) \<Rightarrow>
                       (let sess = sess\<lparr>rwc := w en, enc_seq := Encoder.seq en\<rparr> in
                        case err of
                          Some e \<Rightarrow> (Inl e, sess)
                        | None \<Rightarrow>
                            (let l = length (chans sess)
                             in (Inr (n, l),
                                 sess\<lparr>chans := chans sess @ [ChanEmpty],
                                      sent := (sent sess)(n \<mapsto> l)\<rparr>)))))))"

text \<open>
  The tasks that \<open>Close\<close> waits for. The receive loop ends when \<open>Decode\<close> returns an
  error, which is what reading from the closed stream gives; it then calls \<open>shutdown\<close>
  and, on its way out, \<open>sess.wg.Done()\<close>. A handler task ends when the handler
  returns; its deferred function takes the request out of \<open>reqCount\<close> and calls
  \<open>sess.wg.Done()\<close>. (\<open>shutdown\<close> starts a further call of \<open>Close\<close>, outside the wait
  group.) \<open>task_done\<close> is the effect on the session of a task that ends.

  \<open>sess.wg.Wait()\<close> returns when the counter is zero. Whether and when the other tasks
  end is not for \<open>Close\<close> to decide, so \<open>Wait\<close> takes the tasks that end while it
  waits, in the order in which they end: it is over as soon as the counter is zero,
  and if the list runs out before that, it is still waiting (the result \<open>False\<close>).
\<close>

datatype task = ServeTask | HandlerTask

fun task_done :: "task \<Rightarrow> Session \<Rightarrow> Session" where
  "task_done ServeTask sess = sess\<lparr>wg := wg sess - 1\<rparr>"
| "task_done HandlerTask sess = sess\<lparr>reqCount := reqCount sess - 1, wg := wg sess - 1\<rparr>"

fun Wait :: "task list \<Rightarrow> Session \<Rightarrow> bool \<times> Session" where
  "Wait [] sess = (wg sess = 0, sess)"
| "Wait (t # ts) sess = (if wg sess = 0 then (True, sess) else Wait ts (task_done t sess))"

text \<open>
  \<open>Close\<close>. The loop over \<open>sess.sent\<close> deletes each entry and closes its channel; the
  order in which it visits the keys is the argument \<open>keys\<close>. After the mutex is
  released \<open>Close\<close> waits for the tasks of the wait group, of which \<open>ends\<close> are those
  that end; only then does it close the channel of \<open>NotifyClosed\<close> and return \<open>nil\<close>.
  The result is \<open>Some\<close> of what \<open>Close\<close> returns, or \<open>None\<close> when it does not return
  because it is still waiting, and the session as \<open>Close\<close> has left it so far.
\<close>

fun close_sent :: "uint32 list \<Rightarrow> Session \<Rightarrow> Session" where
  "close_sent [] sess = sess"
| "close_sent (k # ks) sess =
     (case sent sess k of
        None \<Rightarrow> close_sent ks sess
      | Some l \<Rightarrow>
          close_sent ks (sess\<lparr>sent := (sent sess)(k := None),
                               chans := (chans sess)[l := ChanClosed]\<rparr>))"

definition Close :: "uint32 list \<Rightarrow> task list \<Rightarrow> Session \<Rightarrow> error option option \<times> Session" where
  "Close keys ends sess =
     (case setState sess StateClosing of
        (Some err, sess) \<Rightarrow> (Some (Some err), sess)
      | (None, sess) \<Rightarrow>
          (let sess = close_sent keys sess;
               sess = sess\<lparr>rwc := (rwc sess)\<lparr>stream_closed := True\<rparr>\<rparr>
           in case setState sess StateClosed of
                (Some err, sess) \<Rightarrow> (Some (Some err), sess)
              | (None, sess) \<Rightarrow>
                  (case Wait ends sess of
                     (False, sess) \<Rightarrow> (None, sess)
                   | (True, sess) \<Rightarrow> (Some None, sess\<lparr>closed := True\<rparr>))))"

text \<open>The states from which \<open>setState\<close> lets a session go to \<open>StateClosing\<close>.\<close>

definition bound_or_unbinding :: "SessionState \<Rightarrow> bool" where
  "bound_or_unbinding st \<longleftrightarrow>
     st \<in> {StateBoundTx, StateBoundRx, StateBoundTRx, StateUnbinding}"

text \<open>
  Sessions to run the functions on: a fresh ESME session over an open stream, the same
  session bound as transmitter, and one that is bound as transceiver with a single request outstanding under sequence
  number 5, in a window of size 1.
\<close>

definition fresh_session :: Session where
  "fresh_session =
     NewSession (str ''0A0B0C0D-0E0F-0102'') \<lparr>written = [], stream_closed = False\<rparr> SessionConf_zero"

definition bound_tx_session :: Session where
  "bound_tx_session = fresh_session\<lparr>state := StateBoundTx\<rparr>"

definition busy_session :: Session where
  "busy_session =
     (NewSession (str ''0A0B0C0D-0E0F-0102'') \<lparr>written = [], stream_closed = False\<rparr>
        (SessionConf_zero\<lparr>SendWinSize := 1, hook_set := True\<rparr>))
     \<lparr>state := StateBoundTRx, sent := [5 \<mapsto> 0], chans := [ChanEmpty]\<rparr>"

section \<open>Delivery receipts (\<open>pdu/receipt.go\<close>)\<close>

subsection \<open>The regular expression \<open>(\w+ ?\w+)+:([\w\-]+)\<close>\<close>

text \<open>
  The receipt parser calls \<open>FindAllStringSubmatch\<close> of Go's \<open>regexp\<close> package with
  this expression. The model computes what that call returns: the successive
  leftmost matches, each as the list of the whole match, the text of the last iteration
  of the first group and the text of the second group.

  A match that starts at some position has as its key the longest run of word
  characters and spaces from there (the key is made of such characters and must be
  followed by the colon), then the colon, then the longest run of word characters and
  dashes, which must not be empty. The key must split into iterations of
  \<open>\w+ ?\w+\<close>. Go prefers, in this order, a longer first \<open>\w+\<close>, the space taken, a
  longer second \<open>\w+\<close>, and a further iteration over leaving the loop;
  \<open>chunk_lengths\<close> lists the lengths one iteration can take in that order of
  preference, and \<open>group_last\<close> follows it to the first split that uses up the key.
\<close>

definition is_word :: "byte \<Rightarrow> bool" where
  "is_word b \<longleftrightarrow> (48 \<le> b \<and> b \<le> 57) \<or> (65 \<le> b \<and> b \<le> 90) \<or> b = 95 \<or> (97 \<le> b \<and> b \<le> 122)"

definition is_value :: "byte \<Rightarrow> bool" where
  "is_value b \<longleftrightarrow> is_word b \<or> b = 45"



fun first_some :: "('a \<Rightarrow> 'b option) \<Rightarrow> 'a list \<Rightarrow> 'b option" where
  "first_some f [] = None"
| "first_some f (x # xs) = (case f x of Some y \<Rightarrow> Some y | None \<Rightarrow> first_some f xs)"

lemma first_some_cong [fundef_cong]:
  "xs = ys \<Longrightarrow> (\<And>x. x \<in> set ys \<Longrightarrow> f x = g x) \<Longrightarrow> first_some f xs = first_some g ys"
  by (induction ys arbitrary: xs) (auto split: option.splits)






subsection \<open>\<open>ParseDeliveryReceipt\<close>\<close>



record DeliveryReceipt =
  Id :: gostring
  Sub :: gostring
  Dlvrd :: gostring
  SubmitDate :: gotime
  DoneDate :: gotime
  Stat :: gostring
  Err :: gostring
  Text :: gostring







subsection \<open>Receipt dates, as the layouts name them\<close>











text \<open>
  The text of a receipt. \<open>DeliveryReceipt.String\<close> writes it with the format
  \<open>id:%s sub:%s dlvrd:%s submit date:%s done date:%s stat:%s err:%s text:%s\<close>, the two
  dates in the layout \<open>0601021504\<close>. \<open>receipt_fields\<close> is that text up to the word that
  ends the fields, with the dates given as text; \<open>receipt_text\<close> adds the word itself
  (\<open>text:\<close>, or \<open>Text:\<close> as the comment of the struct has it) and the free text.

  \<open>value_text v\<close> says that \<open>v\<close> is a value as the regular expression reads one: not
  empty and made of word characters and dashes. \<open>occurs sub s\<close> says that \<open>sub\<close> occurs
  in \<open>s\<close>: \<open>s\<close> starts with it, or it occurs in \<open>s\<close> without its first byte.
\<close>

definition receipt_fields :: "gostring \<Rightarrow> gostring \<Rightarrow> gostring \<Rightarrow> gostring \<Rightarrow> gostring
    \<Rightarrow> gostring \<Rightarrow> gostring \<Rightarrow> gostring" where
  "receipt_fields idv subv dlv sd dd stv errv =
     str ''id:'' @ idv @ str '' sub:'' @ subv @ str '' dlvrd:'' @ dlv
     @ str '' submit date:'' @ sd @ str '' done date:'' @ dd
     @ str '' stat:'' @ stv @ str '' err:'' @ errv @ str '' ''"

definition receipt_text :: "gostring \<Rightarrow> gostring \<Rightarrow> gostring \<Rightarrow> gostring \<Rightarrow> gostring
    \<Rightarrow> gostring \<Rightarrow> gostring \<Rightarrow> gostring \<Rightarrow> gostring \<Rightarrow> gostring" where
  "receipt_text mark idv subv dlv sd dd stv errv txt =
     receipt_fields idv subv dlv sd dd stv errv @ mark @ txt"

definition DeliveryReceipt_String :: "DeliveryReceipt \<Rightarrow> gostring" where
  "DeliveryReceipt_String dr =
     receipt_text (str ''text:'') (Id dr) (Sub dr) (Dlvrd dr)
       (format_060102 (SubmitDate dr) @ format_1504 (SubmitDate dr))
       (format_060102 (DoneDate dr) @ format_1504 (DoneDate dr))
       (Stat dr) (Err dr) (Text dr)"

definition value_text :: "gostring \<Rightarrow> bool" where
  "value_text v \<longleftrightarrow> v \<noteq> [] \<and> list_all is_value v"

fun occurs :: "gostring \<Rightarrow> gostring \<Rightarrow> bool" where
  "occurs sub [] \<longleftrightarrow> sub = []"
| "occurs sub (c # s) \<longleftrightarrow> take (length sub) (c # s) = sub \<or> occurs sub s"

text \<open>
  A receipt whose fields end with \<open>Text:\<close> and whose free text holds \<open>text:\<close>.
\<close>

definition receipt_two_marks :: gostring where
  "receipt_two_marks = str ''id:a03ea27b-9bb4-4d5e-b87f-3f578ab46153 sub:001 dlvrd:001 submit date:161003211236 done date:161003211236 stat:DELIVRD err:000 Text:see text: here''"

definition receipt_Text :: gostring where
  "receipt_Text = str ''id:a03ea27b-9bb4-4d5e-b87f-3f578ab46153 sub:001 dlvrd:001 submit date:161003211236 done date:1610032113 stat:DELIVRD err:000 Text:see here''"

section \<open>Values to run the codec on\<close>

text \<open>
  The \<open>submit_sm\<close> of the test table \<open>pduTT\<close> (source \<open>test\<close>, destination \<open>test2\<close>,
  message \<open>msg\<close>, everything else zero) and its body as that table gives it; the 27
  bytes that the hexadecimal string of the specification denotes; and a
  \<open>submit_sm_resp\<close> whose message identifier has 4080 bytes.
\<close>

definition submit_sm_example :: SubmitSm where
  "submit_sm_example =
     SubmitSm_zero\<lparr>SubmitSm.SourceAddr := str ''test'', DestinationAddr := str ''test2'',
                    ShortMessage := str ''msg''\<rparr>"

definition submit_sm_body :: "byte list" where
  "submit_sm_body =
     [0x00, 0x00, 0x00, 0x74, 0x65, 0x73, 0x74, 0x00, 0x00, 0x00, 0x74, 0x65, 0x73, 0x74,
      0x32, 0x00, 0x00, 0x00, 0x00, 0x00, 0x00, 0x00, 0x00, 0x00, 0x00, 0x03, 0x6D, 0x73,
      0x67]"

definition spec_hex_body :: "byte list" where
  "spec_hex_body =
     [0x00, 0x00, 0x74, 0x65, 0x73, 0x74, 0x00, 0x00, 0x74, 0x65, 0x73, 0x74, 0x32, 0x00,
      0x00, 0x00, 0x00, 0x00, 0x00, 0x00, 0x00, 0x00, 0x00, 0x03, 0x6D, 0x73, 0x67]"

definition open_stream :: Stream where
  "open_stream = \<lparr>written = [], stream_closed = False\<rparr>"

definition long_resp :: PDU where
  "long_resp =
     SubmitSmResp \<lparr>SubmitSmResp.MessageID = replicate 4080 0x41, SubmitSmResp.Options = None\<rparr>"

section \<open>The sequencer\<close>

lemma Next_calls_default:
  "i < k \<Longrightarrow> Next_calls k (defaultSequencer n) ! i = n + of_nat i"
proof (induction k arbitrary: n i)
  case 0
  then show ?case by simp
next
  case (Suc k)
  show ?case
  proof (cases i)
    case 0
    then show ?thesis by simp
  next
    case (Suc j)
    with Suc.prems have "j < k" by simp
    from Suc.IH [OF this, of "n + 1"] Suc show ?thesis
      by (simp add: add.assoc add.commute)
  qed
qed

text \<open>
  Claim C3 says that the default sequencer starts at 1, counts up to \<open>0x7FFFFFFF\<close> and
  then returns 1 again, so that every number it hands out lies between 1 and
  \<open>0x7FFFFFFF\<close>. The code counts in a \<open>uint32\<close> and never resets: call number \<open>i + 1\<close>
  of a sequencer started at 1 returns \<open>i + 1\<close> modulo \<open>2^32\<close>. The call after the one
  that returned \<open>0x7FFFFFFF\<close> therefore returns \<open>0x80000000\<close>, not 1.
\<close>

theorem default_sequencer_value:
  "i < k \<Longrightarrow> Next_calls k (NewSequencer 1) ! i = (of_nat (i + 1) :: uint32)"
  using Next_calls_default [of i k 1] by (simp add: NewSequencer_def add.commute)

theorem default_sequencer_value_witness:
  "(2147483647 :: nat) < 2147483648
   \<and> Next_calls 2147483648 (NewSequencer 1) ! 2147483647 = (0x80000000 :: uint32)"
  using default_sequencer_value [of 2147483647 2147483648] by simp

section \<open>Scanning the records of a buffer\<close>

lemma Uint16_PutUint16: "Uint16 (ucast (drop_bit 8 t)) (ucast t) = (t :: uint16)"
  unfolding Uint16_def
  by (rule bit_word_eqI) (auto simp: bit_simps)

lemma length_tlv: "length (tlv t v) = 4 + length v"
  by (simp add: tlv_def PutUint16_def)

lemma tlv_nth:
  "(pre @ tlv t v @ rest) ! (length pre) = ucast (drop_bit 8 t)"
  "(pre @ tlv t v @ rest) ! (length pre + 1) = ucast t"
  "(pre @ tlv t v @ rest) ! (length pre + 2) = ucast (drop_bit 8 (of_nat (length v) :: uint16))"
  "(pre @ tlv t v @ rest) ! (length pre + 3) = ucast (of_nat (length v) :: uint16)"
  by (simp_all add: tlv_def PutUint16_def nth_append)

lemma tlv_value:
  "take (length v) (drop (length pre + 4) (pre @ tlv t v @ rest)) = v"
  by (simp add: tlv_def PutUint16_def)

lemma loop_step_gen:
  assumes "n + 4 + l \<le> length buf" and "4 + n < length buf"
    and "Uint16 (buf ! n) (buf ! (n + 1)) = t"
    and "unat (Uint16 (buf ! (n + 2)) (buf ! (n + 3))) = l"
  shows "UnmarshalBinary_loop buf n flds
       = UnmarshalBinary_loop buf (n + (4 + l)) (flds(t \<mapsto> take l (drop (n + 4) buf)))"
  by (subst UnmarshalBinary_loop.simps) (use assms in \<open>simp add: Let_def\<close>)

lemma loop_step:
  assumes "length v < 65536" and "v \<noteq> [] \<or> rest \<noteq> []"
  shows "UnmarshalBinary_loop (pre @ tlv t v @ rest) (length pre) flds
       = UnmarshalBinary_loop (pre @ tlv t v @ rest) (length pre + (4 + length v)) (flds(t \<mapsto> v))"
proof -
  let ?buf = "pre @ tlv t v @ rest"
  have l: "unat (of_nat (length v) :: uint16) = length v"
    using assms(1) by (simp add: unat_of_nat)
  have 1: "length pre + 4 + length v \<le> length ?buf" by (simp add: length_tlv)
  have 2: "4 + length pre < length ?buf" using assms(2) by (auto simp: length_tlv)
  have 3: "Uint16 (?buf ! length pre) (?buf ! (length pre + 1)) = t"
    by (simp only: tlv_nth Uint16_PutUint16)
  have 4: "unat (Uint16 (?buf ! (length pre + 2)) (?buf ! (length pre + 3))) = length v"
    by (simp only: tlv_nth Uint16_PutUint16 l)
  show ?thesis
    using loop_step_gen [OF 1 2 3 4, of flds] by (simp only: tlv_value)
qed

lemma loop_final_empty:
  "UnmarshalBinary_loop (pre @ tlv t []) (length pre) flds = (flds, Some InvalidOptionalBodyLength)"
  by (subst UnmarshalBinary_loop.simps) (simp add: length_tlv)

lemma loop_end: "UnmarshalBinary_loop buf (length buf) flds = (flds, None)"
  by (subst UnmarshalBinary_loop.simps) simp

section \<open>Typed option accessors\<close>

text \<open>
  Claim C10: when a tag is present with a value shorter than the accessor reads,
  \<open>GetSingle\<close> (on the empty value) and \<open>GetDouble\<close> (on a value of fewer than two
  bytes) panic with an index out of range instead of returning a zero value and a
  presence flag; and such values come out of \<open>UnmarshalBinary\<close>, which accepts a
  record of length zero that is not the last one of the buffer: a buffer made of the
  record of a tag \<open>t\<close> with the empty value and the record of a tag \<open>t2\<close> with a value
  that is not empty is read without error into the map that gives \<open>t\<close> the empty
  value, on which \<open>GetSingle\<close> and \<open>GetDouble\<close> of \<open>t\<close> then panic.
\<close>

theorem short_option_values:
  "(opts tag = Some [] \<longrightarrow> GetSingle opts tag = Inl PanicIndexOutOfRange)
   \<and> (opts tag = Some v \<and> length v < 2 \<longrightarrow> GetDouble opts tag = Inl PanicIndexOutOfRange)
   \<and> (v2 \<noteq> [] \<and> length v2 < 65536 \<longrightarrow>
        Options_UnmarshalBinary NewOptions (tlv t [] @ tlv t2 v2)
          = (NewOptions(t \<mapsto> [], t2 \<mapsto> v2), None)
        \<and> (t \<noteq> t2 \<longrightarrow>
             GetSingle (fst (Options_UnmarshalBinary NewOptions (tlv t [] @ tlv t2 v2))) t
               = Inl PanicIndexOutOfRange
             \<and> GetDouble (fst (Options_UnmarshalBinary NewOptions (tlv t [] @ tlv t2 v2))) t
               = Inl PanicIndexOutOfRange))"
proof (intro conjI impI)
  assume "opts tag = Some []"
  then show "GetSingle opts tag = Inl PanicIndexOutOfRange" by (simp add: GetSingle_def)
next
  assume "opts tag = Some v \<and> length v < 2"
  then show "GetDouble opts tag = Inl PanicIndexOutOfRange"
    by (cases v) (simp_all add: GetDouble_def split: list.splits)
next
  assume a: "v2 \<noteq> [] \<and> length v2 < 65536"
  have 1: "UnmarshalBinary_loop (tlv t [] @ tlv t2 v2) 0 NewOptions
         = UnmarshalBinary_loop (tlv t [] @ tlv t2 v2) 4 (NewOptions(t \<mapsto> []))"
    using loop_step [of "[]" "tlv t2 v2" "[]" t NewOptions] a by (simp add: tlv_def)
  have 2: "UnmarshalBinary_loop (tlv t [] @ tlv t2 v2) 4 (NewOptions(t \<mapsto> []))
         = UnmarshalBinary_loop (tlv t [] @ tlv t2 v2) (4 + (4 + length v2))
             (NewOptions(t \<mapsto> [], t2 \<mapsto> v2))"
    using loop_step [of v2 "[]" "tlv t []" t2 "NewOptions(t \<mapsto> [])"] a
    by (simp add: length_tlv)
  have 3: "UnmarshalBinary_loop (tlv t [] @ tlv t2 v2) (4 + (4 + length v2))
             (NewOptions(t \<mapsto> [], t2 \<mapsto> v2))
         = (NewOptions(t \<mapsto> [], t2 \<mapsto> v2), None)"
    using loop_end [of "tlv t [] @ tlv t2 v2"] by (simp add: length_tlv)
  from 1 2 3 show r: "Options_UnmarshalBinary NewOptions (tlv t [] @ tlv t2 v2)
          = (NewOptions(t \<mapsto> [], t2 \<mapsto> v2), None)"
    by (simp add: Options_UnmarshalBinary_def)
  {
    assume "t \<noteq> t2"
    then show "GetSingle (fst (Options_UnmarshalBinary NewOptions (tlv t [] @ tlv t2 v2))) t
               = Inl PanicIndexOutOfRange"
      by (simp add: r GetSingle_def)
  }
  {
    assume "t \<noteq> t2"
    then show "GetDouble (fst (Options_UnmarshalBinary NewOptions (tlv t [] @ tlv t2 v2))) t
               = Inl PanicIndexOutOfRange"
      by (simp add: r GetDouble_def)
  }
qed

theorem short_option_values_witness:
  "(NewOptions(0x020E \<mapsto> [], 0x0204 \<mapsto> [7 :: byte])) 0x020E = Some []
   \<and> GetSingle (NewOptions(0x020E \<mapsto> [], 0x0204 \<mapsto> [7])) 0x020E = Inl PanicIndexOutOfRange
   \<and> (NewOptions(0x020E \<mapsto> [], 0x0204 \<mapsto> [7 :: byte])) 0x0204 = Some [7]
   \<and> length [7 :: byte] < 2
   \<and> GetDouble (NewOptions(0x020E \<mapsto> [], 0x0204 \<mapsto> [7])) 0x0204 = Inl PanicIndexOutOfRange
   \<and> [7 :: byte] \<noteq> [] \<and> length [7 :: byte] < 65536 \<and> (0x020E :: TagID) \<noteq> 0x0204
   \<and> tlv 0x020E [] @ tlv 0x0204 [7] = [0x02, 0x0E, 0, 0, 0x02, 0x04, 0, 1, 7]
   \<and> Options_UnmarshalBinary NewOptions [0x02, 0x0E, 0, 0, 0x02, 0x04, 0, 1, 7]
       = (NewOptions(0x020E \<mapsto> [], 0x0204 \<mapsto> [7]), None)
   \<and> GetSingle (fst (Options_UnmarshalBinary NewOptions [0x02, 0x0E, 0, 0, 0x02, 0x04, 0, 1, 7]))
         0x020E = Inl PanicIndexOutOfRange"
proof -
  have b: "tlv 0x020E [] @ tlv 0x0204 [7] = [0x02, 0x0E, 0, 0, 0x02, 0x04, 0, 1, 7]"
    by (simp add: tlv_def PutUint16_def)
  show ?thesis
    using short_option_values
            [of "NewOptions(0x020E \<mapsto> [], 0x0204 \<mapsto> [7])" "0x020E" "[]" "[7]" "0x020E" "0x0204"]
          short_option_values
            [of "NewOptions(0x020E \<mapsto> [], 0x0204 \<mapsto> [7])" "0x0204" "[7]" "[7]" "0x020E" "0x0204"]
    by (simp add: NewOptions_def b)
qed

section \<open>The send window\<close>

text \<open>
  Claim C6: when the table of outstanding requests already holds \<open>SendWinSize\<close>
  entries, \<open>Send\<close> of a request returns at once with the temporary error
  \<open>sending window closed\<close>, and the session is as it was before the call: nothing is
  written to the stream, the sequencer is not advanced, the state is not changed, the
  state hook is not called and no entry is added to the table. (The theorem is about
  a request that is not \<open>nil\<close>; for \<open>nil\<close>, \<open>Send\<close> returns before it looks at the
  window, with the error \<open>sending nil pdu\<close>, and leaves the session alone as well.)
\<close>

theorem Send_window_closed:
  "int (card (dom (sent sess))) = SendWinSize (conf sess) \<Longrightarrow>
   Send_locked now order sess (Some p) = (Inl (SessionError SendingWindowClosed True), sess)
   \<and> Temporary (SessionError SendingWindowClosed True)
   \<and> Send_locked now order sess None = (Inl (SessionError SendingNilPdu False), sess)"
  by (simp add: Send_locked_def)

theorem Send_window_closed_witness:
  "int (card (dom (sent busy_session))) = SendWinSize (conf busy_session)
   \<and> Send_locked zero_time [] busy_session (Some Unbind)
       = (Inl (SessionError SendingWindowClosed True), busy_session)"
  using Send_window_closed [of busy_session zero_time "[]" Unbind]
  by (simp add: busy_session_def NewSession_def SessionConf_zero_def Let_def)

section \<open>The state machine\<close>

text \<open>
  Claim C2 says that \<open>makeTransition\<close> refuses, with the temporary error and without
  touching the state, every pair of a command and a direction that is not in the
  allowed set of the current state, the allowed sets being those of the table of the
  specification. The switch of \<open>makeTransition\<close> lets more through than that table
  lists. The row of \<open>Open\<close> has the three bind requests only, yet an ESME session that
  is \<open>Open\<close> and receives \<open>outbind\<close> gets \<open>nil\<close>; the list of what an ESME may send in
  \<open>BoundTx\<close> has no response in it, yet an ESME session in \<open>BoundTx\<close> that sends
  \<open>unbind_resp\<close> gets \<open>nil\<close> as well.
\<close>

theorem makeTransition_spec_table_counterexample:
  "OutbindID \<notin> spec_Open_events
   \<and> Type (conf fresh_session) = ESME \<and> state fresh_session = StateOpen
   \<and> makeTransition fresh_session OutbindID True = (None, fresh_session)
   \<and> UnbindRespID \<notin> spec_BoundTx_ESME_may_send
   \<and> Type (conf bound_tx_session) = ESME \<and> state bound_tx_session = StateBoundTx
   \<and> makeTransition bound_tx_session UnbindRespID False = (None, bound_tx_session)"
  by (simp add: spec_Open_events_def spec_BoundTx_ESME_may_send_def makeTransition_def
      bound_tx_session_def fresh_session_def NewSession_def SessionConf_zero_def Let_def
      command_ids)

text \<open>
  Claim C2 as amended, with the table of the code in place of that of the
  specification: \<open>makeTransition\<close> returns the temporary error \<open>processing ... in
  invalid session state\<close> for every command that \<open>in_table\<close> does not list for the
  state, the direction and the type of the session, and the session after the call is
  the session before it, so the state is the same and the state hook has not been
  called. The table is exact: for a command it lists, \<open>makeTransition\<close> returns no
  error and the state after the call is \<open>target\<close> of the state and the command.

  The table: in each of the three bound states and in both directions, \<open>unbind\<close>,
  \<open>data_sm\<close>, \<open>data_sm_resp\<close>, \<open>enquire_link\<close>, \<open>enquire_link_resp\<close> and
  \<open>generic_nack\<close>. Towards the server (an ESME sending, an SMSC receiving) also:
  in \<open>Open\<close> the three bind requests; in \<open>Binding\<close> \<open>generic_nack\<close>; in \<open>BoundTx\<close>
  \<open>unbind_resp\<close>, \<open>deliver_sm_resp\<close>, \<open>submit_sm\<close>, \<open>submit_multi\<close> and \<open>replace_sm\<close>;
  in \<open>BoundRx\<close> \<open>unbind_resp\<close> and \<open>deliver_sm_resp\<close>; in \<open>BoundTRx\<close>
  \<open>deliver_sm_resp\<close>, \<open>submit_sm\<close>, \<open>submit_sm_resp\<close>, \<open>submit_multi\<close>,
  \<open>submit_multi_resp\<close>, \<open>query_sm\<close> and \<open>cancel_sm\<close>; in \<open>Unbinding\<close> \<open>unbind_resp\<close>.
  Towards the client (an SMSC sending, an ESME receiving) also: in \<open>Open\<close> \<open>outbind\<close>;
  in \<open>Binding\<close> the three bind responses and \<open>generic_nack\<close>; in \<open>BoundTx\<close>
  \<open>submit_sm_resp\<close>, \<open>submit_multi_resp\<close>, \<open>query_sm_resp\<close>, \<open>cancel_sm_resp\<close> and
  \<open>replace_sm_resp\<close>; in \<open>BoundRx\<close> \<open>deliver_sm\<close> and \<open>alert_notification\<close>; in
  \<open>BoundTRx\<close> those of \<open>BoundTx\<close> and of \<open>BoundRx\<close>; in \<open>Unbinding\<close> \<open>unbind_resp\<close>.
  In \<open>Closing\<close> and \<open>Closed\<close> nothing passes.
\<close>

theorem makeTransition_table:
  "(\<not> in_table (Type (conf sess)) (state sess) cid received \<longrightarrow>
      makeTransition sess cid received
        = (Some (SessionError (ProcessingInInvalidState cid (state sess)) True), sess)
      \<and> Temporary (SessionError (ProcessingInInvalidState cid (state sess)) True))
   \<and> (in_table (Type (conf sess)) (state sess) cid received \<longrightarrow>
        fst (makeTransition sess cid received) = None
        \<and> state (snd (makeTransition sess cid received)) = target (state sess) cid)"
proof (intro conjI impI)
  assume "\<not> in_table (Type (conf sess)) (state sess) cid received"
  then show "makeTransition sess cid received
        = (Some (SessionError (ProcessingInInvalidState cid (state sess)) True), sess)"
    by (cases "Type (conf sess)"; cases received; cases "state sess";
        simp add: in_table_def to_server_def makeTransition_def bound_events_def)
next
  show "Temporary (SessionError (ProcessingInInvalidState cid (state sess)) True)" by simp
next
  assume a: "in_table (Type (conf sess)) (state sess) cid received"
  then show "fst (makeTransition sess cid received) = None"
    by (cases "Type (conf sess)"; cases received; cases "state sess";
        auto simp add: in_table_def to_server_def makeTransition_def setState_def
          setState_valid_def Let_def command_ids bound_events_def)
  from a show "state (snd (makeTransition sess cid received)) = target (state sess) cid"
    by (cases "Type (conf sess)"; cases received; cases "state sess";
        auto simp add: in_table_def to_server_def makeTransition_def setState_def
          setState_valid_def Let_def command_ids bound_events_def target_def)
qed

theorem makeTransition_table_witness:
  "\<not> in_table (Type (conf fresh_session)) (state fresh_session) SubmitSmID False
   \<and> makeTransition fresh_session SubmitSmID False
       = (Some (SessionError (ProcessingInInvalidState SubmitSmID StateOpen) True), fresh_session)
   \<and> in_table (Type (conf fresh_session)) (state fresh_session) BindTransceiverID False
   \<and> fst (makeTransition fresh_session BindTransceiverID False) = None
   \<and> state (snd (makeTransition fresh_session BindTransceiverID False)) = StateBinding"
  using makeTransition_table [of fresh_session SubmitSmID False]
        makeTransition_table [of fresh_session BindTransceiverID False]
  by (simp add: fresh_session_def NewSession_def SessionConf_zero_def Let_def in_table_def
      to_server_def target_def command_ids)

section \<open>Closing a session\<close>

lemma close_sent_sent:
  "sent (close_sent ks sess) = (\<lambda>k. if k \<in> set ks then None else sent sess k)"
  by (induction ks arbitrary: sess) (auto split: option.splits)

lemma close_sent_other:
  "conf (close_sent ks sess) = conf sess"
  "rwc (close_sent ks sess) = rwc sess"
  "state (close_sent ks sess) = state sess"
  "hook_calls (close_sent ks sess) = hook_calls sess"
  "systemID (close_sent ks sess) = systemID sess"
  "closed (close_sent ks sess) = closed sess"
  "length (chans (close_sent ks sess)) = length (chans sess)"
  by (induction ks arbitrary: sess; simp split: option.splits)+

lemma close_sent_keeps_closed:
  "l < length (chans sess) \<Longrightarrow> chans sess ! l = ChanClosed \<Longrightarrow>
   chans (close_sent ks sess) ! l = ChanClosed"
proof (induction ks arbitrary: sess)
  case Nil
  then show ?case by simp
next
  case (Cons k ks)
  show ?case
  proof (cases "sent sess k")
    case None
    with Cons show ?thesis by simp
  next
    case (Some l0)
    let ?s = "sess\<lparr>sent := (sent sess)(k := None), chans := (chans sess)[l0 := ChanClosed]\<rparr>"
    have "chans ?s ! l = ChanClosed" using Cons.prems by (cases "l = l0") simp_all
    moreover have "l < length (chans ?s)" using Cons.prems by simp
    ultimately have "chans (close_sent ks ?s) ! l = ChanClosed" by (rule Cons.IH [rotated])
    with Some show ?thesis by simp
  qed
qed

lemma close_sent_closes:
  "k \<in> set ks \<Longrightarrow> sent sess k = Some l \<Longrightarrow> l < length (chans sess) \<Longrightarrow>
   chans (close_sent ks sess) ! l = ChanClosed"
proof (induction ks arbitrary: sess)
  case Nil
  then show ?case by simp
next
  case (Cons k0 ks)
  show ?case
  proof (cases "sent sess k0")
    case None
    with Cons.prems have "k \<in> set ks" by auto
    from Cons.IH [OF this Cons.prems(2,3)] None show ?thesis by simp
  next
    case (Some l0)
    let ?s = "sess\<lparr>sent := (sent sess)(k0 := None), chans := (chans sess)[l0 := ChanClosed]\<rparr>"
    show ?thesis
    proof (cases "k = k0")
      case True
      with Some Cons.prems have "l0 = l" by simp
      then have "chans ?s ! l = ChanClosed" "l < length (chans ?s)" using Cons.prems by simp_all
      then have "chans (close_sent ks ?s) ! l = ChanClosed"
        by (rule close_sent_keeps_closed [rotated])
      with Some show ?thesis by simp
    next
      case False
      with Cons.prems have "k \<in> set ks" "sent ?s k = Some l" "l < length (chans ?s)" by auto
      then have "chans (close_sent ks ?s) ! l = ChanClosed" by (rule Cons.IH)
      with Some show ?thesis by simp
    qed
  qed
qed

lemma close_sent_wg: "wg (close_sent ks sess) = wg sess"
  by (induction ks arbitrary: sess; simp split: option.splits)

lemma Wait_over: "fst (Wait ends sess) = (wg sess \<le> length ends)"
proof (induction ends arbitrary: sess)
  case Nil
  show ?case by simp
next
  case (Cons t ts)
  show ?case by (cases t) (auto simp: Cons.IH)
qed

lemma Wait_other:
  "conf (snd (Wait ends sess)) = conf sess"
  "rwc (snd (Wait ends sess)) = rwc sess"
  "state (snd (Wait ends sess)) = state sess"
  "hook_calls (snd (Wait ends sess)) = hook_calls sess"
  "sent (snd (Wait ends sess)) = sent sess"
  "chans (snd (Wait ends sess)) = chans sess"
  "closed (snd (Wait ends sess)) = closed sess"
proof (induction ends arbitrary: sess)
  case Nil
  {
    case 1 show ?case by simp
  next
    case 2 show ?case by simp
  next
    case 3 show ?case by simp
  next
    case 4 show ?case by simp
  next
    case 5 show ?case by simp
  next
    case 6 show ?case by simp
  next
    case 7 show ?case by simp
  }
next
  case (Cons t ts)
  {
    case 1 show ?case by (cases t) (simp_all add: Cons.IH)
  next
    case 2 show ?case by (cases t) (simp_all add: Cons.IH)
  next
    case 3 show ?case by (cases t) (simp_all add: Cons.IH)
  next
    case 4 show ?case by (cases t) (simp_all add: Cons.IH)
  next
    case 5 show ?case by (cases t) (simp_all add: Cons.IH)
  next
    case 6 show ?case by (cases t) (simp_all add: Cons.IH)
  next
    case 7 show ?case by (cases t) (simp_all add: Cons.IH)
  }
qed

text \<open>
  Claim C7 says that \<open>Close\<close> on a session in any state (\<open>Open\<close> and \<open>Binding\<close>
  included) goes through \<open>Closing\<close> to \<open>Closed\<close>, closes the stream, completes and
  removes every outstanding slot and returns no error, and that only a second \<open>Close\<close>
  fails. What \<open>Close\<close> does, state by state:

  \<^item> on a session that is bound (as transmitter, receiver or transceiver) or unbinding,
    the state becomes \<open>Closed\<close>, the stream is closed, the table of outstanding
    requests is emptied and the channel of every slot that was in it is closed, and
    the state hook, if there is one, is called with \<open>Closing\<close> and then with \<open>Closed\<close>;
    \<open>Close\<close> then waits for the tasks of the wait group, and it signals the closed
    event and returns \<open>nil\<close> exactly when as many of them end as the counter holds
    (\<open>wg sess \<le> length ends\<close>); as long as fewer have ended it has neither returned nor
    signalled;

  \<^item> on a session that is \<open>Open\<close> or \<open>Binding\<close>, \<open>setState\<close> refuses the step to
    \<open>Closing\<close>: \<open>Close\<close> returns that error at once and the session is as it was, the
    state kept, the stream open, the slots in place and the receive loop still
    counted in the wait group. This is where the code departs from the claim, and from
    its own comments, which ask for \<open>Close\<close> on every session (\<open>NewSession\<close>: call
    \<open>Close\<close> after use to avoid a goroutine leak, the session will call \<open>Close\<close> on the
    stream during shutdown; \<open>Close\<close>: it must be called to dispose of the session),
    and from its own receive loop, which calls \<open>Close\<close> through \<open>shutdown\<close> on every
    decoding error, whatever the state;

  \<^item> on a session that is \<open>Closed\<close>, \<open>Close\<close> returns the already-closed error, and on
    one that is \<open>Closing\<close> the error of setting the same state twice, the session
    unchanged in both cases.
\<close>

theorem Close_by_state:
  "(bound_or_unbinding (state sess) \<and> set keys = dom (sent sess) \<longrightarrow>
      (\<exists>sess'. Close keys ends sess = (if wg sess \<le> length ends then Some None else None, sess')
         \<and> state sess' = StateClosed \<and> stream_closed (rwc sess')
         \<and> closed sess' = (closed sess \<or> wg sess \<le> length ends)
         \<and> sent sess' = Map.empty
         \<and> (\<forall>k l. sent sess k = Some l \<and> l < length (chans sess) \<longrightarrow> chans sess' ! l = ChanClosed)
         \<and> hook_calls sess' = hook_calls sess
              @ (if hook_set (conf sess)
                 then [(ID (conf sess), Session_SystemID sess, StateClosing),
                       (ID (conf sess), Session_SystemID sess, StateClosed)]
                 else [])))
   \<and> (state sess = StateOpen \<longrightarrow>
        Close keys ends sess = (Some (Some (SettingOpenToInvalidState StateClosing)), sess))
   \<and> (state sess = StateBinding \<longrightarrow>
        Close keys ends sess = (Some (Some (SettingBindingToInvalidState StateClosing)), sess))
   \<and> (state sess = StateClosing \<longrightarrow>
        Close keys ends sess = (Some (Some (SettingSameStateTwice StateClosing)), sess))
   \<and> (state sess = StateClosed \<longrightarrow>
        Close keys ends sess = (Some (Some (AlreadyInClosedState StateClosing)), sess))"
proof (intro conjI impI)
  assume a: "bound_or_unbinding (state sess) \<and> set keys = dom (sent sess)"
  then have v: "setState_valid (state sess) StateClosing = None"
    by (auto simp: bound_or_unbinding_def setState_valid_def)
  have dom: "\<And>k l. sent sess k = Some l \<Longrightarrow> k \<in> set keys" using a by auto
  define s1 where "s1 = snd (setState sess StateClosing)"
  define s2 where "s2 = (close_sent keys s1)\<lparr>rwc := (rwc (close_sent keys s1))\<lparr>stream_closed := True\<rparr>\<rparr>"
  define s3 where "s3 = snd (setState s2 StateClosed)"
  define s4 where "s4 = snd (Wait ends s3)"
  have e1: "setState sess StateClosing = (None, s1)"
    and f1: "state s1 = StateClosing" "sent s1 = sent sess" "chans s1 = chans sess"
       "wg s1 = wg sess" "closed s1 = closed sess" "conf s1 = conf sess" "rwc s1 = rwc sess"
       "hook_calls s1 = hook_calls sess
          @ (if hook_set (conf sess) then [(ID (conf sess), Session_SystemID sess, StateClosing)] else [])"
       "systemID s1 = systemID sess"
    using v by (simp_all add: s1_def setState_def Let_def Session_SystemID_def)
  have f2: "state s2 = StateClosing" "sent s2 = Map.empty" "length (chans s2) = length (chans sess)"
       "wg s2 = wg sess" "closed s2 = closed sess" "conf s2 = conf sess" "stream_closed (rwc s2)"
       "hook_calls s2 = hook_calls s1" "systemID s2 = systemID sess"
    using f1 a
    by (auto simp: s2_def close_sent_other close_sent_sent close_sent_wg
        fun_eq_iff domIff)
  have c2: "chans s2 ! l = ChanClosed" if "sent sess k = Some l" "l < length (chans sess)" for k l
    using that f1 dom [OF that(1)] by (simp add: s2_def close_sent_closes [of k keys s1 l])
  have e3: "setState s2 StateClosed = (None, s3)"
    and f3: "state s3 = StateClosed" "sent s3 = Map.empty" "chans s3 = chans s2"
       "wg s3 = wg sess" "closed s3 = closed sess" "conf s3 = conf sess" "stream_closed (rwc s3)"
       "hook_calls s3 = hook_calls s2
          @ (if hook_set (conf sess) then [(ID (conf sess), Session_SystemID sess, StateClosed)] else [])"
    using f2 by (simp_all add: s3_def setState_def setState_valid_def Let_def Session_SystemID_def)
  have e4: "Wait ends s3 = (wg sess \<le> length ends, s4)"
    using Wait_over [of ends s3] f3 by (simp add: s4_def prod_eq_iff)
  have f4: "state s4 = StateClosed" "sent s4 = Map.empty" "chans s4 = chans s2"
       "closed s4 = closed sess" "stream_closed (rwc s4)" "hook_calls s4 = hook_calls s3"
    using f3 by (simp_all add: s4_def Wait_other)
  have c: "Close keys ends sess
      = (if wg sess \<le> length ends then (Some None, s4\<lparr>closed := True\<rparr>) else (None, s4))"
    using e1 e3 e4 by (simp add: Close_def Let_def s2_def [symmetric])
  show "\<exists>sess'. Close keys ends sess = (if wg sess \<le> length ends then Some None else None, sess')
         \<and> state sess' = StateClosed \<and> stream_closed (rwc sess')
         \<and> closed sess' = (closed sess \<or> wg sess \<le> length ends)
         \<and> sent sess' = Map.empty
         \<and> (\<forall>k l. sent sess k = Some l \<and> l < length (chans sess) \<longrightarrow> chans sess' ! l = ChanClosed)
         \<and> hook_calls sess' = hook_calls sess
              @ (if hook_set (conf sess)
                 then [(ID (conf sess), Session_SystemID sess, StateClosing),
                       (ID (conf sess), Session_SystemID sess, StateClosed)]
                 else [])"
  proof (cases "wg sess \<le> length ends")
    case True
    show ?thesis
      by (rule exI [of _ "s4\<lparr>closed := True\<rparr>"]) (use True c f4 f3 f2 f1 c2 in auto)
  next
    case False
    show ?thesis
      by (rule exI [of _ s4]) (use False c f4 f3 f2 f1 c2 in auto)
  qed
qed (simp_all add: Close_def setState_def setState_valid_def)

theorem Close_by_state_witness:
  "bound_or_unbinding (state busy_session) \<and> set [5] = dom (sent busy_session)
   \<and> wg busy_session = 1
   \<and> fst (Close [5] [ServeTask] busy_session) = Some None
   \<and> state (snd (Close [5] [ServeTask] busy_session)) = StateClosed
   \<and> stream_closed (rwc (snd (Close [5] [ServeTask] busy_session)))
   \<and> closed (snd (Close [5] [ServeTask] busy_session))
   \<and> sent (snd (Close [5] [ServeTask] busy_session)) = Map.empty
   \<and> chans (snd (Close [5] [ServeTask] busy_session)) ! 0 = ChanClosed
   \<and> fst (Close [5] [] busy_session) = None
   \<and> state (snd (Close [5] [] busy_session)) = StateClosed
   \<and> \<not> closed (snd (Close [5] [] busy_session))
   \<and> state fresh_session = StateOpen
   \<and> Close [] [ServeTask] fresh_session
       = (Some (Some (SettingOpenToInvalidState StateClosing)), fresh_session)
   \<and> \<not> stream_closed (rwc fresh_session) \<and> wg fresh_session = 1
   \<and> state (fresh_session\<lparr>state := StateBinding\<rparr>) = StateBinding
   \<and> fst (Close [] [ServeTask] (fresh_session\<lparr>state := StateBinding\<rparr>))
       = Some (Some (SettingBindingToInvalidState StateClosing))
   \<and> state (fresh_session\<lparr>state := StateClosing\<rparr>) = StateClosing
   \<and> fst (Close [] [ServeTask] (fresh_session\<lparr>state := StateClosing\<rparr>))
       = Some (Some (SettingSameStateTwice StateClosing))
   \<and> state (fresh_session\<lparr>state := StateClosed\<rparr>) = StateClosed
   \<and> fst (Close [] [ServeTask] (fresh_session\<lparr>state := StateClosed\<rparr>))
       = Some (Some (AlreadyInClosedState StateClosing))"
proof -
  have b: "bound_or_unbinding (state busy_session) \<and> set [5] = dom (sent busy_session)"
    by (simp add: busy_session_def bound_or_unbinding_def NewSession_def Let_def)
  have l: "sent busy_session 5 = Some 0 \<and> 0 < length (chans busy_session)"
    by (simp add: busy_session_def NewSession_def Let_def)
  have w: "wg busy_session = 1" "\<not> closed busy_session"
    by (simp_all add: busy_session_def NewSession_def Let_def)
  have o: "state fresh_session = StateOpen" "\<not> stream_closed (rwc fresh_session)"
    "wg fresh_session = 1"
    by (simp_all add: fresh_session_def NewSession_def Let_def)
  from b Close_by_state [of busy_session "[5]" "[ServeTask]"]
  obtain s' where s': "Close [5] [ServeTask] busy_session
        = (if wg busy_session \<le> length [ServeTask] then Some None else None, s')"
    "state s' = StateClosed" "stream_closed (rwc s')"
    "closed s' = (closed busy_session \<or> wg busy_session \<le> length [ServeTask])"
    "sent s' = Map.empty"
    "\<forall>k l. sent busy_session k = Some l \<and> l < length (chans busy_session) \<longrightarrow> chans s' ! l = ChanClosed"
    by blast
  from s'(6) l have c: "chans s' ! 0 = ChanClosed" by blast
  from b Close_by_state [of busy_session "[5]" "[]"]
  obtain s'' where s'': "Close [5] [] busy_session
        = (if wg busy_session \<le> length ([] :: task list) then Some None else None, s'')"
    "state s'' = StateClosed"
    "closed s'' = (closed busy_session \<or> wg busy_session \<le> length ([] :: task list))"
    by blast
  have 1: "Close [] [ServeTask] fresh_session
       = (Some (Some (SettingOpenToInvalidState StateClosing)), fresh_session)"
    using o Close_by_state [of fresh_session "[]" "[ServeTask]"] by blast
  have 2: "fst (Close [] [ServeTask] (fresh_session\<lparr>state := StateBinding\<rparr>))
       = Some (Some (SettingBindingToInvalidState StateClosing))"
    using Close_by_state [of "fresh_session\<lparr>state := StateBinding\<rparr>" "[]" "[ServeTask]"] by simp
  have 3: "fst (Close [] [ServeTask] (fresh_session\<lparr>state := StateClosing\<rparr>))
       = Some (Some (SettingSameStateTwice StateClosing))"
    using Close_by_state [of "fresh_session\<lparr>state := StateClosing\<rparr>" "[]" "[ServeTask]"] by simp
  have 4: "fst (Close [] [ServeTask] (fresh_session\<lparr>state := StateClosed\<rparr>))
       = Some (Some (AlreadyInClosedState StateClosing))"
    using Close_by_state [of "fresh_session\<lparr>state := StateClosed\<rparr>" "[]" "[ServeTask]"] by simp
  show ?thesis using b w o s'(1-5) c s'' 1 2 3 4 by simp
qed

section \<open>The body of \<open>submit_sm\<close> and its frame\<close>

text \<open>
  Claim C1 gives the body of the example \<open>submit_sm\<close> as the hexadecimal string
  \<open>0000746573740000746573743200000000000000000000036d7367\<close>. That string has 27 bytes;
  the code produces 29 (the string lacks one of the two zero bytes before each of the
  two addresses: type of number and numbering plan). So the body is not the string's,
  the string's bytes do not decode to the example (they give the addresses \<open>est\<close> and
  \<open>est2\<close> with numbering plan 116), and a frame around them would have length 43, not
  the 45 the claim states.
\<close>

theorem submit_sm_spec_hex_counterexample:
  "SubmitSm_MarshalBinary zero_time [] submit_sm_example \<noteq> Inr spec_hex_body
   \<and> fst (SubmitSm_UnmarshalBinary zero_time SubmitSm_zero spec_hex_body) \<noteq> submit_sm_example
   \<and> length spec_hex_body + 16 \<noteq> 45"
  apply (intro conjI)
    apply (simp add: SubmitSm_MarshalBinary_def submit_sm_example_def SubmitSm_zero_def
      spec_hex_body_def writeTime_def IsZero_def zero_time_def EsmClass_Byte_def
      RegisteredDelivery_Byte_def str_def Let_def)
   apply (simp add: SubmitSm_UnmarshalBinary_def Sm_UnmarshalBinary_def Sm_steps_def
      spec_hex_body_def cstring_step_def byte_step_def time_step_def string_step_def
      ReadCString_def ReadByte_def ReadString_def Parse_def ParseEsmClass_def
      ParseRegisteredDelivery_def submit_sm_example_def SubmitSm_zero_def str_def Let_def)
  apply (simp add: spec_hex_body_def)
  done

lemma submit_sm_marshal:
  "SubmitSm_MarshalBinary now order submit_sm_example = Inr submit_sm_body"
  by (simp add: SubmitSm_MarshalBinary_def submit_sm_example_def SubmitSm_zero_def
      submit_sm_body_def writeTime_def IsZero_def zero_time_def EsmClass_Byte_def
      RegisteredDelivery_Byte_def str_def Let_def)

lemma submit_sm_encode:
  "Encode now order (NewEncoder open_stream None) (SubmitSm submit_sm_example)
       [EncodeStatus StatusOK, EncodeSeq 1]
     = ((1, None),
        \<lparr>w = \<lparr>written = [0, 0, 0, 0x2D, 0, 0, 0, 4, 0, 0, 0, 0, 0, 0, 0, 1] @ submit_sm_body,
               stream_closed = False\<rparr>,
         seq = NewSequencer 1\<rparr>)"
  by (simp add: Encode_def submit_sm_marshal NewEncoder_def Write_def PutUint32_def
      StatusOK_def SubmitSmID_def submit_sm_body_def open_stream_def Let_def)

lemma submit_sm_encode_default:
  "Encode now order (NewEncoder open_stream None) (SubmitSm submit_sm_example) []
     = ((1, None),
        \<lparr>w = \<lparr>written = [0, 0, 0, 0x2D, 0, 0, 0, 4, 0, 0, 0, 0, 0, 0, 0, 1] @ submit_sm_body,
               stream_closed = False\<rparr>,
         seq = defaultSequencer 2\<rparr>)"
  by (simp add: Encode_def submit_sm_marshal NewEncoder_def NewSequencer_def Write_def
      PutUint32_def SubmitSmID_def submit_sm_body_def open_stream_def Let_def)

lemma submit_sm_unmarshal:
  "SubmitSm_UnmarshalBinary now SubmitSm_zero submit_sm_body = (submit_sm_example, None)"
  by (simp add: SubmitSm_UnmarshalBinary_def Sm_UnmarshalBinary_def Sm_steps_def
      submit_sm_body_def cstring_step_def byte_step_def time_step_def string_step_def
      ReadCString_def ReadByte_def ReadString_def Parse_def ParseEsmClass_def
      ParseRegisteredDelivery_def submit_sm_example_def SubmitSm_zero_def str_def Let_def)

text \<open>
  Claim C1 as amended: the body of the example \<open>submit_sm\<close> is the 29 bytes
  \<open>00000074657374000000746573743200000000000000000000036d7367\<close>; encoding the PDU with
  sequence number 1 and status OK (the sequence number given, or taken from a new
  default sequencer) writes the 16 bytes \<open>0000002D 00000004 00000000 00000001\<close> followed
  by that body, 45 bytes in all; and unmarshalling that body into a zero \<open>SubmitSm\<close>
  gives the example back, with no error.
\<close>

theorem submit_sm_vectors:
  "SubmitSm_MarshalBinary now order submit_sm_example = Inr submit_sm_body
   \<and> length submit_sm_body = 29
   \<and> Encode now order (NewEncoder open_stream None) (SubmitSm submit_sm_example)
        [EncodeStatus StatusOK, EncodeSeq 1]
      = ((1, None),
         \<lparr>w = \<lparr>written = [0, 0, 0, 0x2D, 0, 0, 0, 4, 0, 0, 0, 0, 0, 0, 0, 1] @ submit_sm_body,
                stream_closed = False\<rparr>,
          seq = NewSequencer 1\<rparr>)
   \<and> fst (Encode now order (NewEncoder open_stream None) (SubmitSm submit_sm_example) [])
      = (1, None)
   \<and> written (w (snd (Encode now order (NewEncoder open_stream None)
                        (SubmitSm submit_sm_example) [])))
      = [0, 0, 0, 0x2D, 0, 0, 0, 4, 0, 0, 0, 0, 0, 0, 0, 1] @ submit_sm_body
   \<and> length ([0, 0, 0, 0x2D, 0, 0, 0, 4, 0, 0, 0, 0, 0, 0, 0, 1 :: byte] @ submit_sm_body) = 45
   \<and> SubmitSm_UnmarshalBinary now SubmitSm_zero submit_sm_body = (submit_sm_example, None)"
  by (simp add: submit_sm_marshal submit_sm_encode submit_sm_encode_default submit_sm_unmarshal)
     (simp add: submit_sm_body_def)

theorem submit_sm_vectors_witness:
  "SubmitSm_MarshalBinary zero_time [] submit_sm_example = Inr submit_sm_body
   \<and> SubmitSm_UnmarshalBinary zero_time SubmitSm_zero submit_sm_body = (submit_sm_example, None)"
  using submit_sm_vectors [of zero_time "[]"] by simp

section \<open>The size of an encoded frame\<close>

text \<open>
  Claim C4 says that \<open>Encode\<close> fails for a PDU whose body is longer than 4096 - 16
  bytes and that the length word of every frame it writes is 16 plus the length of
  the body. The second half holds (the word is a \<open>uint32\<close>). The first does not:
  whenever the body marshals and the stream takes the write, \<open>Encode\<close> writes the
  frame, whatever its length. The \<open>submit_sm_resp\<close> with a message identifier of 4080
  bytes has a body of 4081 bytes and goes out as a frame of 4097 bytes with the length
  word \<open>0x00001001\<close>, which \<open>Decode\<close> of the same package refuses in
  \<open>header.UnmarshalBinary\<close> as over the upper limit.
\<close>

theorem Encode_any_size:
  "MarshalBinary now order p = Inr body \<Longrightarrow> \<not> stream_closed (w en) \<Longrightarrow>
   \<exists>n sq. Encode now order en p opts
      = ((n, None),
         \<lparr>w = (w en)\<lparr>written := written (w en) @ PutUint32 (of_nat (length body + 16))
                      @ PutUint32 (CommandID p)
                      @ PutUint32 (status (foldl apply_option \<lparr>encoderOpts.seq = 0, status = 0\<rparr> opts))
                      @ PutUint32 n @ body\<rparr>,
          seq = sq\<rparr>)"
  by (auto simp: Encode_def Write_def Let_def split: prod.splits)

theorem Encode_any_size_witness:
  "MarshalBinary zero_time [] long_resp = Inr (replicate 4080 0x41 @ [0])
   \<and> \<not> stream_closed (w (NewEncoder open_stream None))
   \<and> MaxPDUSize < length (replicate 4080 (0x41 :: byte) @ [0]) + 16
   \<and> (\<exists>n sq. Encode zero_time [] (NewEncoder open_stream None) long_resp []
        = ((n, None),
           \<lparr>w = \<lparr>written = [0, 0, 0x10, 0x01] @ PutUint32 SubmitSmRespID @ [0, 0, 0, 0]
                    @ PutUint32 n @ replicate 4080 0x41 @ [0],
                  stream_closed = False\<rparr>,
            seq = sq\<rparr>))
   \<and> Encode zero_time [] (NewEncoder open_stream None) long_resp []
        = ((1, None),
           \<lparr>w = \<lparr>written = [0, 0, 0x10, 0x01, 0x80, 0, 0, 4, 0, 0, 0, 0, 0, 0, 0, 1]
                    @ replicate 4080 0x41 @ [0],
                  stream_closed = False\<rparr>,
            seq = defaultSequencer 2\<rparr>)
   \<and> fst (Decode zero_time ([0, 0, 0x10, 0x01, 0x80, 0, 0, 4, 0, 0, 0, 0, 0, 0, 0, 1]
                 @ replicate 4080 0x41 @ [0]))
        = (Some \<lparr>h_length = 4097, h_commandID = 0, h_status = 0, h_sequence = 0\<rparr>, None,
           Some PduLengthOverUpperLimit)"
proof -
  have m: "MarshalBinary zero_time [] long_resp = Inr (replicate 4080 0x41 @ [0])"
    by (simp add: long_resp_def SubmitSmResp_MarshalBinary_def cStringOptsRespMarshal_def)
  have c: "\<not> stream_closed (w (NewEncoder open_stream None))"
    by (simp add: NewEncoder_def open_stream_def)
  have l: "PutUint32 (of_nat (length (replicate 4080 (0x41 :: byte) @ [0]) + 16)) = [0, 0, 0x10, 0x01]"
    by (simp add: PutUint32_def)
  have z: "PutUint32 0 = [0, 0, 0, 0]" by (simp add: PutUint32_def)
  have e: "\<exists>n sq. Encode zero_time [] (NewEncoder open_stream None) long_resp []
        = ((n, None),
           \<lparr>w = \<lparr>written = [0, 0, 0x10, 0x01] @ PutUint32 SubmitSmRespID @ [0, 0, 0, 0]
                    @ PutUint32 n @ replicate 4080 0x41 @ [0],
                  stream_closed = False\<rparr>,
            seq = sq\<rparr>)"
    using Encode_any_size [OF m c, of "[]"] l z
    by (simp add: NewEncoder_def open_stream_def long_resp_def)
  have f: "Encode zero_time [] (NewEncoder open_stream None) long_resp []
        = ((1, None),
           \<lparr>w = \<lparr>written = [0, 0, 0x10, 0x01, 0x80, 0, 0, 4, 0, 0, 0, 0, 0, 0, 0, 1]
                    @ replicate 4080 0x41 @ [0],
                  stream_closed = False\<rparr>,
            seq = defaultSequencer 2\<rparr>)"
    by (simp add: Encode_def long_resp_def SubmitSmResp_MarshalBinary_def
        cStringOptsRespMarshal_def NewEncoder_def NewSequencer_def open_stream_def Write_def
        PutUint32_def SubmitSmRespID_def Let_def)
  have d: "fst (Decode zero_time ([0, 0, 0x10, 0x01, 0x80, 0, 0, 4, 0, 0, 0, 0, 0, 0, 0, 1]
                 @ replicate 4080 0x41 @ [0]))
        = (Some \<lparr>h_length = 4097, h_commandID = 0, h_status = 0, h_sequence = 0\<rparr>, None,
           Some PduLengthOverUpperLimit)"
    by (simp add: Decode_def ReadFull_def header_UnmarshalBinary_def header_zero_def Uint32_def
        MaxPDUSize_def Let_def)
  have x: "MaxPDUSize < length (replicate 4080 (0x41 :: byte) @ [0]) + 16"
    by (simp add: MaxPDUSize_def)
  from m c x e f d show ?thesis by (intro conjI)
qed

section \<open>Marshalling options and reading them back\<close>

lemma Marshal_Cons:
  "m t = Some v \<Longrightarrow> Options_MarshalBinary (t # ts) m = tlv t v @ Options_MarshalBinary ts m"
  by (simp add: tlv_def)

lemma Marshal_nonempty:
  "ts \<noteq> [] \<Longrightarrow> set ts \<subseteq> dom m \<Longrightarrow> Options_MarshalBinary ts m \<noteq> []"
  by (cases ts) (auto simp: PutUint16_def)

lemma roundtrip_loop:
  assumes "set order \<subseteq> dom m" and "\<forall>t v. m t = Some v \<longrightarrow> length v < 65536"
  shows "UnmarshalBinary_loop (pre @ Options_MarshalBinary order m) (length pre) flds
       = (if order \<noteq> [] \<and> m (last order) = Some []
          then (flds ++ (m |` set (butlast order)), Some InvalidOptionalBodyLength)
          else (flds ++ (m |` set order), None))"
  using assms(1)
proof (induction order arbitrary: pre flds)
  case Nil
  show ?case using loop_end [of pre flds] by simp
next
  case (Cons t ts)
  then obtain v where v: "m t = Some v" by auto
  with assms(2) have len: "length v < 65536" by blast
  have sub: "set ts \<subseteq> dom m" using Cons.prems by simp
  have upd: "\<And>S. flds(t \<mapsto> v) ++ (m |` S) = flds ++ (m |` insert t S)"
    using v by (auto simp: map_add_def restrict_map_def fun_eq_iff split: option.splits)
  show ?case
  proof (cases "ts = []")
    case True
    show ?thesis
    proof (cases "v = []")
      case True
      with \<open>ts = []\<close> v loop_final_empty [of pre t flds] show ?thesis
        by (simp add: Marshal_Cons del: Options_MarshalBinary.simps(2))
    next
      case False
      from loop_step [OF len, of "[]" pre t flds] False
      have "UnmarshalBinary_loop (pre @ tlv t v) (length pre) flds
          = UnmarshalBinary_loop (pre @ tlv t v) (length (pre @ tlv t v)) (flds(t \<mapsto> v))"
        by (simp add: length_tlv)
      also have "\<dots> = (flds(t \<mapsto> v), None)" by (rule loop_end)
      finally show ?thesis using \<open>ts = []\<close> v False upd [of "{}"]
        by (simp add: Marshal_Cons del: Options_MarshalBinary.simps(2))
    qed
  next
    case False
    let ?rest = "Options_MarshalBinary ts m"
    have ne: "?rest \<noteq> []" using False sub by (rule Marshal_nonempty)
    have "UnmarshalBinary_loop (pre @ tlv t v @ ?rest) (length pre) flds
        = UnmarshalBinary_loop ((pre @ tlv t v) @ ?rest) (length (pre @ tlv t v)) (flds(t \<mapsto> v))"
      using loop_step [OF len, of ?rest pre t flds] ne by (simp add: length_tlv)
    also have "\<dots> = (if ts \<noteq> [] \<and> m (last ts) = Some []
          then (flds(t \<mapsto> v) ++ (m |` set (butlast ts)), Some InvalidOptionalBodyLength)
          else (flds(t \<mapsto> v) ++ (m |` set ts), None))"
      by (rule Cons.IH [OF sub])
    finally show ?thesis using False v
      by (simp add: Marshal_Cons upd del: Options_MarshalBinary.simps)
  qed
qed

text \<open>
  Claim C5 says that unmarshalling what \<open>MarshalBinary\<close> wrote gives the map back, for
  every map with values of at most 65535 bytes, also when a value is empty. The code
  does so exactly when the record written last has a value that is not empty: the
  scan asks for more than four bytes to be left (\<open>len(buf)-n <= 4\<close> is an error), so a
  last record that is only its four-byte header, the record of an empty value, is
  refused with \<open>invalid optional body length\<close>, after the records before it have been
  stored. In the middle of the buffer the same record is accepted. The order of the
  records is the order in which Go ranges over the map, here \<open>order\<close>.
\<close>

theorem Options_roundtrip:
  assumes "set order = dom m" and "\<forall>t v. m t = Some v \<longrightarrow> length v < 65536"
  shows "Options_UnmarshalBinary NewOptions (Options_MarshalBinary order m)
       = (if order \<noteq> [] \<and> m (last order) = Some []
          then (m |` set (butlast order), Some InvalidOptionalBodyLength)
          else (m, None))"
proof -
  have "m |` set order = m" using assms(1) by (auto simp: restrict_map_def fun_eq_iff domIff)
  moreover have "order = [] \<Longrightarrow> m = Map.empty"
  proof -
    assume "order = []"
    then have "dom m = {}" using assms(1) by simp
    then show "m = Map.empty" by simp
  qed
  ultimately show ?thesis
    using roundtrip_loop [of order m "[]" Map.empty] assms
    by (auto simp: Options_UnmarshalBinary_def NewOptions_def)
qed


theorem Options_roundtrip_witness:
  "set [0x0005] = dom (NewOptions(0x0005 \<mapsto> []))
   \<and> Options_MarshalBinary [0x0005] (NewOptions(0x0005 \<mapsto> [])) = [0, 5, 0, 0]
   \<and> Options_UnmarshalBinary NewOptions (Options_MarshalBinary [0x0005] (NewOptions(0x0005 \<mapsto> [])))
       = (NewOptions, Some InvalidOptionalBodyLength)"
proof -
  have d: "set [0x0005] = dom (NewOptions(0x0005 \<mapsto> ([] :: byte list)))"
    by (simp add: NewOptions_def)
  have b: "\<forall>t v. (NewOptions(0x0005 \<mapsto> ([] :: byte list))) t = Some v \<longrightarrow> length v < 65536"
    by (simp add: NewOptions_def)
  from Options_roundtrip [OF d b] d show ?thesis
    by (simp add: NewOptions_def PutUint16_def)
qed

section \<open>Bind responses\<close>

lemma find_nul_append:
  "0 \<notin> set sid \<Longrightarrow> i \<le> length sid \<Longrightarrow> find_nul (sid @ 0 # rest) i = int (Suc (length sid))"
proof (induction "length sid - i" arbitrary: i)
  case 0
  then have "i = length sid" by simp
  then show ?case by (subst find_nul.simps) simp
next
  case (Suc d)
  then have lt: "i < length sid" by simp
  then have "(sid @ 0 # rest) ! i \<noteq> 0" using Suc.prems(1) by (simp add: nth_append) (metis nth_mem)
  moreover have "find_nul (sid @ 0 # rest) (i + 1) = int (Suc (length sid))"
    using Suc lt by (intro Suc.hyps(1)) auto
  ultimately show ?case using lt by (subst find_nul.simps) simp
qed

lemma find_nul_empty: "find_nul [] 0 = - 1"
  by (subst find_nul.simps) simp

lemma find_nul_terminated:
  "0 \<notin> set sid \<Longrightarrow> find_nul (sid @ 0 # rest) 0 = int (Suc (length sid))"
  by (rule find_nul_append) simp_all

text \<open>
  Claim C8 says that unmarshalling a bind response from an empty body succeeds with an
  empty system identifier and no options. \<open>UnmarshalBinary\<close> of the three bind
  responses returns the error \<open>c string is not terminated\<close> on the empty body.
\<close>

theorem bind_resp_empty_body_counterexample:
  "UnmarshalBinary zero_time (BindTRxResp \<lparr>BindResp.SystemID = [], BindResp.Options = None\<rparr>) []
     = (BindTRxResp \<lparr>BindResp.SystemID = [], BindResp.Options = None\<rparr>, Some CStringNotTerminated)
   \<and> snd (UnmarshalBinary zero_time (BindTxResp \<lparr>BindResp.SystemID = [], BindResp.Options = None\<rparr>) [])
     = Some CStringNotTerminated
   \<and> snd (UnmarshalBinary zero_time (BindRxResp \<lparr>BindResp.SystemID = [], BindResp.Options = None\<rparr>) [])
     = Some CStringNotTerminated"
  by (simp add: BindResp_UnmarshalBinary_def cStringOptsRespUnmarshal_def find_nul_empty)

text \<open>
  Claim C8 as amended: unmarshalling a bind response (transmitter, receiver or
  transceiver) from an empty body fails with \<open>c string is not terminated\<close>. From a
  body that is a system identifier and its terminating zero byte it succeeds with
  that identifier and no options; and when bytes follow the terminator and
  \<open>Options.UnmarshalBinary\<close> reads them into \<open>opts\<close> without error, it succeeds with the
  identifier and the options \<open>opts\<close>. A frame of a bind response that has no body at all
  (length 16) is decoded without a call of \<open>UnmarshalBinary\<close>, to the response with an
  empty system identifier and no options.
\<close>

theorem bind_resp_unmarshal:
  "snd (BindResp_UnmarshalBinary p []) = Some CStringNotTerminated
   \<and> (0 \<notin> set sid \<longrightarrow>
        BindResp_UnmarshalBinary p (sid @ [0])
          = (\<lparr>BindResp.SystemID = sid, BindResp.Options = None\<rparr>, None)
        \<and> (rest \<noteq> [] \<and> Options_UnmarshalBinary NewOptions rest = (opts, None) \<longrightarrow>
             BindResp_UnmarshalBinary p (sid @ [0] @ rest)
               = (\<lparr>BindResp.SystemID = sid, BindResp.Options = Some opts\<rparr>, None)))
   \<and> Decode now [0, 0, 0, 16, 0x80, 0, 0, 2, 0, 0, 0, 0, 0, 0, 0, 1]
       = ((Some \<lparr>h_length = 16, h_commandID = BindTransmitterRespID, h_status = 0, h_sequence = 1\<rparr>,
           Some (BindTxResp \<lparr>BindResp.SystemID = [], BindResp.Options = None\<rparr>), None), [])
   \<and> Decode now [0, 0, 0, 16, 0x80, 0, 0, 1, 0, 0, 0, 0, 0, 0, 0, 1]
       = ((Some \<lparr>h_length = 16, h_commandID = BindReceiverRespID, h_status = 0, h_sequence = 1\<rparr>,
           Some (BindRxResp \<lparr>BindResp.SystemID = [], BindResp.Options = None\<rparr>), None), [])
   \<and> Decode now [0, 0, 0, 16, 0x80, 0, 0, 9, 0, 0, 0, 0, 0, 0, 0, 1]
       = ((Some \<lparr>h_length = 16, h_commandID = BindTransceiverRespID, h_status = 0, h_sequence = 1\<rparr>,
           Some (BindTRxResp \<lparr>BindResp.SystemID = [], BindResp.Options = None\<rparr>), None), [])"
proof (intro conjI impI)
  show "snd (BindResp_UnmarshalBinary p []) = Some CStringNotTerminated"
    by (simp add: BindResp_UnmarshalBinary_def cStringOptsRespUnmarshal_def find_nul_empty)
next
  assume "0 \<notin> set sid"
  from find_nul_terminated [OF this, of "[]"]
  show "BindResp_UnmarshalBinary p (sid @ [0])
          = (\<lparr>BindResp.SystemID = sid, BindResp.Options = None\<rparr>, None)"
    by (simp add: BindResp_UnmarshalBinary_def cStringOptsRespUnmarshal_def Let_def
        del: of_nat_Suc)
next
  assume "0 \<notin> set sid" and "rest \<noteq> [] \<and> Options_UnmarshalBinary NewOptions rest = (opts, None)"
  with find_nul_terminated [of sid rest]
  show "BindResp_UnmarshalBinary p (sid @ [0] @ rest)
          = (\<lparr>BindResp.SystemID = sid, BindResp.Options = Some opts\<rparr>, None)"
    by (simp add: BindResp_UnmarshalBinary_def cStringOptsRespUnmarshal_def Let_def
        del: of_nat_Suc)
qed (simp_all add: Decode_def ReadFull_def header_UnmarshalBinary_def header_zero_def Uint32_def
      MaxPDUSize_def NewPDU_def command_ids BindResp_zero_def Let_def)

theorem bind_resp_unmarshal_witness:
  "0 \<notin> set (str ''test'')
   \<and> BindResp_UnmarshalBinary \<lparr>BindResp.SystemID = [], BindResp.Options = None\<rparr> (str ''test'' @ [0])
       = (\<lparr>BindResp.SystemID = str ''test'', BindResp.Options = None\<rparr>, None)
   \<and> [0x02, 0x10, 0x00, 0x01, 0x34 :: byte] \<noteq> []
   \<and> Options_UnmarshalBinary NewOptions [0x02, 0x10, 0x00, 0x01, 0x34]
       = (NewOptions(0x0210 \<mapsto> [0x34]), None)
   \<and> BindResp_UnmarshalBinary \<lparr>BindResp.SystemID = [], BindResp.Options = None\<rparr>
         (str ''test'' @ [0] @ [0x02, 0x10, 0x00, 0x01, 0x34])
       = (\<lparr>BindResp.SystemID = str ''test'',
           BindResp.Options = Some (NewOptions(0x0210 \<mapsto> [0x34]))\<rparr>, None)"
proof -
  have z: "0 \<notin> set (str ''test'')" by (simp add: str_def)
  have u: "Options_UnmarshalBinary NewOptions [0x02, 0x10, 0x00, 0x01, 0x34]
       = (NewOptions(0x0210 \<mapsto> [0x34]), None)"
    by (simp add: Options_UnmarshalBinary_def UnmarshalBinary_loop.simps Uint16_def
        NewOptions_def)
  from bind_resp_unmarshal
         [of "\<lparr>BindResp.SystemID = [], BindResp.Options = None\<rparr>" "str ''test''"
             "[0x02, 0x10, 0x00, 0x01, 0x34]" "NewOptions(0x0210 \<mapsto> [0x34])"]
       z u
  show ?thesis by simp
qed

section \<open>Dates of a delivery receipt\<close>





lemma length_two: "length (two n) = 2"
  by (simp add: two_def)

















end
